theory Spec2Isabelle
  imports Complex_Main "HOL-Library.Word" "HOL-Library.Log_Nat"
begin

section \<open>JavaScript values used by the stamper and the routes\<close>

text \<open>
  A JavaScript string is modelled by the byte sequence of its UTF-8 encoding, the
  encoding of the source files themselves. Concatenation, emptiness and splitting at
  an ASCII character agree with the code-unit view; the only non-ASCII character of the
  sources, the e-acute of the footer, is the two bytes C3 A9.

  A thrown value is an \<open>Error\<close> object carrying its message.
\<close>

datatype exn = Error string

type_synonym buffer = "8 word list"

text \<open>
  Page indices and counts are naturals, rendered by a template literal in decimal (they
  stay far below the size at which JavaScript turns to exponent notation).
\<close>

definition digit_char :: "nat \<Rightarrow> char" where
  "digit_char d = ''0123456789'' ! d"

fun numberToString :: "nat \<Rightarrow> string" where
  "numberToString n =
     (if n < 10 then [digit_char n]
      else numberToString (n div 10) @ [digit_char (n mod 10)])"

declare numberToString.simps [simp del]

text \<open>The number a decimal numeral denotes, to read a rendered number back.\<close>

definition decimalValue :: "string \<Rightarrow> nat" where
  "decimalValue s = foldl (\<lambda>a c. 10 * a + (of_char c - 48)) 0 s"

section \<open>Double-precision arithmetic\<close>

text \<open>
  A number that measures a page or a text is a finite IEEE 754 double, held as the
  rational it denotes. An arithmetic operation gives the exact result rounded to the
  nearest double, ties to the even significand: 53 significant bits, the spacing of the
  subnormals below 2 to the power -1022. Overflow to infinity and NaN are not modelled;
  the operands here are page and text sizes, far from the largest double.
\<close>

definition round_half_even :: "rat \<Rightarrow> int" where
  "round_half_even r =
     (let f = \<lfloor>r\<rfloor>; d = r - of_int f
      in if d < 1 / 2 then f else if 1 / 2 < d then f + 1 else if even f then f else f + 1)"

text \<open>The binary exponent of a number other than zero: the floor of its logarithm.\<close>

definition exponent :: "rat \<Rightarrow> int" where
  "exponent q =
     (if 1 \<le> \<bar>q\<bar> then bitlen \<lfloor>\<bar>q\<bar>\<rfloor> - 1 else - bitlen (\<lceil>1 / \<bar>q\<bar>\<rceil> - 1))"

definition double_round :: "rat \<Rightarrow> rat" where
  "double_round q =
     (if q = 0 then 0
      else let e = max (exponent q) (- 1022); u = 2 powi (e - 52)
           in of_int (round_half_even (q / u)) * u)"

text \<open>The operators \<open>-\<close> and \<open>/\<close> of the language, and a decimal literal.\<close>

definition minus_double :: "rat \<Rightarrow> rat \<Rightarrow> rat" where
  "minus_double a b = double_round (a - b)"

definition divide_double :: "rat \<Rightarrow> rat \<Rightarrow> rat" where
  "divide_double a b = double_round (a / b)"

definition literal_double :: "rat \<Rightarrow> rat" where
  "literal_double q = double_round q"

section \<open>The clock\<close>

text \<open>
  \<open>new Date()\<close> reads the clock: its value is a time in milliseconds.
  \<open>toLocaleString\<close> is the platform's rendering of a time for a locale tag.
\<close>

record js_clock =
  newDate :: int
  toLocaleString :: "int \<Rightarrow> string \<Rightarrow> string"

section \<open>The PDF object model of the library\<close>

text \<open>
  The PDF library is an external collaborator. A document is its ordered pages; a page
  has a size and a content stream, a list of drawing operators. What was in the file when
  it was parsed is opaque (\<open>Existing\<close>); \<open>drawText\<close> appends one text operator
  with the options it was given. Parsing, font embedding, text measurement and
  serialisation are parameters of the model and may throw; so may \<open>drawText\<close>.
  \<open>save\<close> serialises the document after it has given a document without pages one
  blank page of the default size (its option \<open>addDefaultPage\<close>, on unless turned off).
\<close>

datatype standard_font =
  Courier | CourierBold | CourierOblique | CourierBoldOblique
  | Helvetica | HelveticaBold | HelveticaOblique | HelveticaBoldOblique
  | TimesRoman | TimesRomanBold | TimesRomanItalic | TimesRomanBoldItalic
  | Symbol | ZapfDingbats

datatype pdf_font = PDFFont standard_font

datatype color = RGB rat rat rat

definition rgb :: "rat \<Rightarrow> rat \<Rightarrow> rat \<Rightarrow> color" where
  "rgb r g b = RGB r g b"

record text_options =
  opt_x :: rat
  opt_y :: rat
  opt_size :: rat
  opt_font :: pdf_font
  opt_color :: color
  opt_opacity :: rat

datatype 'c operator = Existing 'c | DrawText string text_options

record 'c pdf_page =
  page_width :: rat
  page_height :: rat
  page_contents :: "'c operator list"

datatype 'c pdf_document = PDFDocument (getPages: "'c pdf_page list")

record 'c pdf_lib =
  load :: "buffer \<Rightarrow> exn + 'c pdf_document"
  embedFont :: "'c pdf_document \<Rightarrow> standard_font \<Rightarrow> exn + pdf_font"
  widthOfTextAtSize :: "pdf_font \<Rightarrow> string \<Rightarrow> rat \<Rightarrow> exn + rat"
  drawText_fault :: "'c pdf_page \<Rightarrow> string \<Rightarrow> text_options \<Rightarrow> exn option"
  serialize :: "'c pdf_document \<Rightarrow> exn + buffer"

definition drawText ::
  "'c pdf_lib \<Rightarrow> 'c pdf_page \<Rightarrow> string \<Rightarrow> text_options \<Rightarrow> exn + 'c pdf_page" where
  "drawText lib page text opts =
     (case drawText_fault lib page text opts of
        Some e \<Rightarrow> Inl e
      | None \<Rightarrow> Inr (page\<lparr>page_contents := page_contents page @ [DrawText text opts]\<rparr>))"

definition defaultPage :: "'c pdf_page" where
  "defaultPage =
     \<lparr>page_width = literal_double (59528 / 100), page_height = literal_double (84189 / 100),
      page_contents = []\<rparr>"

definition prepareForSave :: "'c pdf_document \<Rightarrow> 'c pdf_document" where
  "prepareForSave pdfDoc =
     (if getPages pdfDoc = [] then PDFDocument [defaultPage] else pdfDoc)"

definition save :: "'c pdf_lib \<Rightarrow> 'c pdf_document \<Rightarrow> exn + buffer" where
  "save lib pdfDoc = serialize lib (prepareForSave pdfDoc)"

section \<open>The footer stamper\<close>

definition fontSize :: rat where
  "fontSize = 6"

text \<open>Lines 41 to 46: the text of page \<open>i\<close> (0-based) of \<open>n\<close>.\<close>

definition footerText ::
  "string \<Rightarrow> string \<Rightarrow> string option \<Rightarrow> string \<Rightarrow> nat \<Rightarrow> nat \<Rightarrow> string" where
  "footerText uid token signatureInfo timestamp i n =
     (let text = ''BeaverDoc - UID: '' @ uid @ '' | Token: '' @ token @ '' | Page ''
                 @ numberToString (i + 1) @ ''/'' @ numberToString n
      in case signatureInfo of
           None \<Rightarrow> text
         | Some s \<Rightarrow>
             if s \<noteq> []
             then text @ '' | '' @ s @ '' | Horodat'' @ [CHR 0xC3, CHR 0xA9] @ '' le '' @ timestamp
             else text)"

text \<open>Lines 37 to 63: the body of the loop, on the page at index \<open>i\<close>.\<close>

definition stampPage ::
  "'c pdf_lib \<Rightarrow> pdf_font \<Rightarrow> string \<Rightarrow> string \<Rightarrow> string option \<Rightarrow> string \<Rightarrow> nat \<Rightarrow> nat
     \<Rightarrow> 'c pdf_page \<Rightarrow> exn + 'c pdf_page" where
  "stampPage lib font uid token signatureInfo timestamp n i page =
     (let width = page_width page;
          height = page_height page;
          text = footerText uid token signatureInfo timestamp i n
      in case widthOfTextAtSize lib font text fontSize of
           Inl e \<Rightarrow> Inl e
         | Inr textWidth \<Rightarrow>
             (let x = divide_double (minus_double width textWidth) 2;
                  y = 10
              in drawText lib page text
                   \<lparr>opt_x = x, opt_y = y, opt_size = fontSize, opt_font = font,
                    opt_color = rgb (literal_double (7 / 10)) (literal_double (7 / 10))
                                  (literal_double (7 / 10)),
                    opt_opacity = 1 / 2\<rparr>))"

text \<open>Line 36: the loop over the page indices; a throw leaves it at once.\<close>

function stampPages ::
  "'c pdf_lib \<Rightarrow> pdf_font \<Rightarrow> string \<Rightarrow> string \<Rightarrow> string option \<Rightarrow> string \<Rightarrow> nat
     \<Rightarrow> 'c pdf_page list \<Rightarrow> exn + 'c pdf_page list" where
  "stampPages lib font uid token signatureInfo timestamp i pages =
     (if i < length pages then
        (case stampPage lib font uid token signatureInfo timestamp (length pages) i (pages ! i) of
           Inl e \<Rightarrow> Inl e
         | Inr page' \<Rightarrow>
             stampPages lib font uid token signatureInfo timestamp (i + 1) (pages[i := page']))
      else Inr pages)"
  by pat_completeness auto
termination
  by (relation "measure (\<lambda>(lib, font, uid, token, signatureInfo, timestamp, i, pages).
        length pages - i)") auto

declare stampPages.simps [simp del]

text \<open>
  Lines 32 and 33: the time of the call, read once, in the rendering of the French
  locale.
\<close>

definition timestampOf :: "js_clock \<Rightarrow> string" where
  "timestampOf clock = (let now = newDate clock in toLocaleString clock now ''fr-FR'')"

text \<open>Lines 23 to 64: everything between parsing and serialising.\<close>

definition stampDocument ::
  "'c pdf_lib \<Rightarrow> js_clock \<Rightarrow> 'c pdf_document \<Rightarrow> string \<Rightarrow> string \<Rightarrow> string option
     \<Rightarrow> exn + 'c pdf_document" where
  "stampDocument lib clock pdfDoc uid token signatureInfo =
     (case embedFont lib pdfDoc Helvetica of
        Inl e \<Rightarrow> Inl e
      | Inr font \<Rightarrow>
          (let timestamp = timestampOf clock
           in case stampPages lib font uid token signatureInfo timestamp 0 (getPages pdfDoc) of
                Inl e \<Rightarrow> Inl e
              | Inr pages' \<Rightarrow> Inr (PDFDocument pages')))"

text \<open>Lines 19 to 69: the body of the \<open>try\<close> block.\<close>

definition tryStamp ::
  "'c pdf_lib \<Rightarrow> js_clock \<Rightarrow> buffer \<Rightarrow> string \<Rightarrow> string \<Rightarrow> string option \<Rightarrow> exn + buffer" where
  "tryStamp lib clock pdfBuffer uid token signatureInfo =
     (case load lib pdfBuffer of
        Inl e \<Rightarrow> Inl e
      | Inr pdfDoc \<Rightarrow>
          (case stampDocument lib clock pdfDoc uid token signatureInfo of
             Inl e \<Rightarrow> Inl e
           | Inr stamped \<Rightarrow> save lib stamped))"

text \<open>
  The whole routine. The result is the console output of the call and the settlement of
  the promise: \<open>Inl\<close> the rejection.
\<close>

definition genericMessage :: string where
  "genericMessage = ''Impossible de modifier le PDF pour ajouter l'UID et le token''"

definition addUidAndTokenToPdf ::
  "'c pdf_lib \<Rightarrow> js_clock \<Rightarrow> buffer \<Rightarrow> string \<Rightarrow> string \<Rightarrow> string option
     \<Rightarrow> (string \<times> exn) list \<times> (exn + buffer)" where
  "addUidAndTokenToPdf lib clock pdfBuffer uid token signatureInfo =
     (case tryStamp lib clock pdfBuffer uid token signatureInfo of
        Inl error \<Rightarrow>
          ([(''Erreur lors de la modification du PDF:'', error)], Inl (Error genericMessage))
      | Inr modifiedPdfBytes \<Rightarrow> ([], Inr modifiedPdfBytes))"

section \<open>The identifier generators of the upload route\<close>

text \<open>
  The generators read the clock and the random source; one reading of each is the
  environment of a call: the values of \<open>now.toISOString()\<close>,
  \<open>now.toTimeString()\<close> and \<open>randomUUID()\<close>.
\<close>

record gen_env =
  toISOString :: string
  toTimeString :: string
  randomUUID :: string

text \<open>\<open>s.split(c)[0]\<close> for a separator of one character.\<close>

definition splitFirst :: "char \<Rightarrow> string \<Rightarrow> string" where
  "splitFirst c s = takeWhile (\<lambda>d. d \<noteq> c) s"

text \<open>\<open>s.replace(/c/g, '')\<close> for a pattern of one character.\<close>

definition replaceAllEmpty :: "char \<Rightarrow> string \<Rightarrow> string" where
  "replaceAllEmpty c s = filter (\<lambda>d. d \<noteq> c) s"

text \<open>\<open>s.substring(0, n)\<close>, on a string of ASCII characters.\<close>

definition substring0 :: "nat \<Rightarrow> string \<Rightarrow> string" where
  "substring0 n s = take n s"

definition generateUID :: "gen_env \<Rightarrow> string" where
  "generateUID env =
     (let date = replaceAllEmpty CHR ''-'' (splitFirst CHR ''T'' (toISOString env));
          time = replaceAllEmpty CHR '':'' (splitFirst CHR '' '' (toTimeString env));
          userId = ''0042'';
          companyId = ''7890'';
          random = substring0 16 (replaceAllEmpty CHR ''-'' (randomUUID env))
      in ''UID-'' @ date @ ''-'' @ time @ ''-USR'' @ userId @ ''-CPY'' @ companyId @ ''-'' @ random)"

definition generateToken :: "gen_env \<Rightarrow> string" where
  "generateToken env =
     (let date = replaceAllEmpty CHR ''-'' (splitFirst CHR ''T'' (toISOString env));
          time = replaceAllEmpty CHR '':'' (splitFirst CHR '' '' (toTimeString env));
          random = substring0 16 (replaceAllEmpty CHR ''-'' (randomUUID env))
      in ''DOC-'' @ date @ ''-'' @ time @ ''-'' @ random)"

text \<open>
  The shapes of the three readings: an ISO date-time of a four-digit year, a time string
  that starts with the clock time and a blank, and a UUID in its 8-4-4-4-12 form.
\<close>

definition isDigit :: "char \<Rightarrow> bool" where
  "isDigit c = (c \<in> set ''0123456789'')"

definition isHex :: "char \<Rightarrow> bool" where
  "isHex c = (c \<in> set ''0123456789abcdef'')"

definition digits :: "nat \<Rightarrow> string \<Rightarrow> bool" where
  "digits n s = (length s = n \<and> list_all isDigit s)"

definition hexs :: "nat \<Rightarrow> string \<Rightarrow> bool" where
  "hexs n s = (length s = n \<and> list_all isHex s)"

section \<open>The upload route\<close>

text \<open>
  A value produced by \<open>JSON.parse\<close>, and the read of a property of it: it throws
  on \<open>null\<close>, is \<open>undefined\<close> (\<open>None\<close>) on a primitive, an array or an
  object without the key.
\<close>

datatype json =
  JNull | JBool bool | JNumber rat | JString string | JArray "json list"
  | JObject "(string \<times> json) list"



















section \<open>A small instance of the library\<close>

text \<open>
  An instance of the library interface on which the theorems below are exercised. A file
  has one byte for each page, the page's width; the empty file does not parse. A text is
  half its size wide for each character. The one-byte file \<open>0x53\<close> is the serialised
  form of \<open>sample_stamped\<close>, a page of width 200 that was stamped once, and the
  one-byte file \<open>0x30\<close> is a document without pages.
\<close>

definition sample_page :: "rat \<Rightarrow> string pdf_page" where
  "sample_page w = \<lparr>page_width = w, page_height = 842, page_contents = [Existing ''body'']\<rparr>"

definition sample_stamped :: "string pdf_document" where
  "sample_stamped =
     PDFDocument
       [\<lparr>page_width = 200, page_height = 842,
         page_contents =
           [Existing ''body'',
            DrawText ''BeaverDoc - UID: UID-X | Token: DOC-Y | Page 1/1''
              \<lparr>opt_x = 28, opt_y = 10, opt_size = 6, opt_font = PDFFont Helvetica,
               opt_color = RGB (literal_double (7 / 10)) (literal_double (7 / 10))
                               (literal_double (7 / 10)),
               opt_opacity = 1 / 2\<rparr>]\<rparr>]"

definition sample_lib :: "string pdf_lib" where
  "sample_lib =
     \<lparr>load = (\<lambda>b. if b = [] then Inl (Error ''No PDF header found'')
                  else if b = [0x53] then Inr sample_stamped
                  else if b = [0x30] then Inr (PDFDocument [])
                  else Inr (PDFDocument (map (\<lambda>w. sample_page (of_nat (unat w))) b))),
      embedFont = (\<lambda>d f. Inr (PDFFont f)),
      widthOfTextAtSize = (\<lambda>f t s. Inr (of_nat (length t) * s / 2)),
      drawText_fault = (\<lambda>p t opts. None),
      serialize = (\<lambda>d. if d = sample_stamped then Inr [0x53]
                  else Inr (map (\<lambda>p. of_nat (length (page_contents p))) (getPages d)))\<rparr>"

text \<open>The same library, except that it cannot draw a text wider than the page.\<close>

definition faulty_lib :: "string pdf_lib" where
  "faulty_lib =
     sample_lib\<lparr>drawText_fault :=
       (\<lambda>p t opts. if opt_x opts < 0 then Some (Error ''text does not fit'') else None)\<rparr>"



text \<open>
  A clock that reads 3 November 2026, 10:15:00 UTC, on a platform that renders it for the
  French locale as day/month/year and the time of day.
\<close>

definition sample_clock :: js_clock where
  "sample_clock =
     \<lparr>newDate = 1793700900000,
      toLocaleString =
        (\<lambda>t locale. if locale = ''fr-FR'' then ''03/11/2026 10:15:00''
                     else ''11/3/2026, 10:15:00 AM'')\<rparr>"

text \<open>One reading of the clock and of the random source.\<close>

definition sample_env :: gen_env where
  "sample_env =
     \<lparr>toISOString = ''2026-11-03T10:15:00.000Z'',
      toTimeString = ''10:15:00 GMT+0000 (Coordinated Universal Time)'',
      randomUUID = ''123e4567-e89b-42d3-a456-426614174000''\<rparr>"




section \<open>Rounding to a double\<close>


lemma round_half_even_of_int [simp]: "round_half_even (of_int n) = n"
  by (simp add: round_half_even_def)



lemma exponent_le: "q \<noteq> 0 \<Longrightarrow> 2 powi exponent q \<le> \<bar>q\<bar>"
proof -
  assume q: "q \<noteq> 0"
  show ?thesis
  proof (cases "1 \<le> \<bar>q\<bar>")
    case True
    let ?a = "\<lfloor>\<bar>q\<bar>\<rfloor>"
    from True have a: "0 < ?a" by simp
    from bitlen_bounds [OF a] have "2 ^ nat (bitlen ?a - 1) \<le> ?a" by simp
    then have "(of_int (2 ^ nat (bitlen ?a - 1)) :: rat) \<le> of_int ?a"
      by (simp only: of_int_le_iff)
    also have "\<dots> \<le> \<bar>q\<bar>" by simp
    finally have "(2::rat) ^ nat (bitlen ?a - 1) \<le> \<bar>q\<bar>" by simp
    moreover from a have "1 \<le> bitlen ?a" by (simp add: bitlen_alt_def)
    ultimately show ?thesis using True
      by (simp add: exponent_def power_int_nonneg_exp)
  next
    case False
    let ?n = "\<lceil>1 / \<bar>q\<bar>\<rceil>"
    let ?k = "bitlen (?n - 1)"
    from False q have lt: "0 < \<bar>q\<bar>" "\<bar>q\<bar> < 1" by simp_all
    then have "1 < 1 / \<bar>q\<bar>" by (simp add: field_simps)
    then have n: "2 \<le> ?n" by (simp add: le_ceiling_iff)
    then have pos: "0 < ?n - 1" by simp
    from bitlen_bounds [OF pos] have "?n - 1 < 2 ^ nat ?k" by simp
    then have "?n \<le> 2 ^ nat ?k" by simp
    then have "(of_int ?n :: rat) \<le> of_int (2 ^ nat ?k)" by (simp only: of_int_le_iff)
    then have "(of_int ?n :: rat) \<le> 2 ^ nat ?k" by simp
    with le_of_int_ceiling [of "1 / \<bar>q\<bar>"] have "1 / \<bar>q\<bar> \<le> 2 ^ nat ?k"
      by (rule order_trans)
    then have "1 / 2 ^ nat ?k \<le> \<bar>q\<bar>" using lt by (simp add: field_simps)
    moreover have "(2::rat) powi (- ?k) = 1 / 2 ^ nat ?k"
      using bitlen_nonneg [of "?n - 1"] by (simp add: power_int_minus_divide power_int_nonneg_exp)
    ultimately show ?thesis using False by (simp add: exponent_def)
  qed
qed




lemma exponent_less: "q \<noteq> 0 \<Longrightarrow> \<bar>q\<bar> < 2 ^ n \<Longrightarrow> exponent q < int n"
proof (rule ccontr)
  assume q: "q \<noteq> 0" and lt: "\<bar>q\<bar> < 2 ^ n" and "\<not> exponent q < int n"
  then have "int n \<le> exponent q" by simp
  then have "(2::rat) powi int n \<le> 2 powi exponent q"
    by (intro power_int_increasing) simp_all
  with exponent_le [OF q] lt show False by simp
qed

lemma double_round_of_int:
  assumes "\<bar>n\<bar> < 2 ^ 53"
  shows "double_round (of_int n) = of_int n"
proof (cases "n = 0")
  case True
  then show ?thesis by (simp add: double_round_def)
next
  case False
  define e where "e = max (exponent (of_int n)) (- 1022)"
  have "\<bar>of_int n :: rat\<bar> < 2 ^ 53"
    using assms by (metis of_int_abs of_int_less_iff of_int_numeral of_int_power)
  with False have "exponent (of_int n) < 53"
    using exponent_less [of "of_int n" 53] by simp
  then have e: "e \<le> 52" by (simp add: e_def)
  define k where "k = nat (52 - e)"
  have u: "(2::rat) powi (e - 52) = 1 / 2 ^ k"
    using e by (simp add: k_def power_int_def power_one_over)
  have "of_int n / (1 / 2 ^ k :: rat) = of_int (n * 2 ^ k)" by simp
  then have "round_half_even (of_int n / (1 / 2 ^ k)) = n * 2 ^ k"
    by (simp only: round_half_even_of_int)
  then show ?thesis using False
    by (simp add: double_round_def Let_def e_def [symmetric] u)
qed

lemma double_round_numeral [simp]:
  "numeral k < (2 ^ 53 :: int) \<Longrightarrow> double_round (numeral k) = numeral k"
  "numeral k < (2 ^ 53 :: int) \<Longrightarrow> double_round (- numeral k) = - numeral k"
  using double_round_of_int [of "numeral k"] double_round_of_int [of "- numeral k"] by simp_all





section \<open>The decimal rendering\<close>

lemma digit_char_value: "d < 10 \<Longrightarrow> of_char (digit_char d) = 48 + d"
proof -
  assume "d < 10"
  then have "d \<in> {0, 1, 2, 3, 4, 5, 6, 7, 8, 9}" by auto
  then show ?thesis by (auto simp: digit_char_def)
qed

lemma decimalValue_numberToString: "decimalValue (numberToString n) = n"
proof (induction n rule: numberToString.induct)
  case (1 n)
  show ?case
  proof (cases "n < 10")
    case True
    then show ?thesis
      by (simp add: numberToString.simps [of n] digit_char_value decimalValue_def)
  next
    case False
    with 1 have "decimalValue (numberToString (n div 10)) = n div 10" by simp
    with False show ?thesis
      by (simp add: numberToString.simps [of n] digit_char_value decimalValue_def)
  qed
qed

section \<open>The loop over the pages\<close>

lemma drawText_Inr_iff:
  "drawText lib page text opts = Inr page' \<longleftrightarrow>
     drawText_fault lib page text opts = None \<and>
     page' = page\<lparr>page_contents := page_contents page @ [DrawText text opts]\<rparr>"
  by (auto simp: drawText_def split: option.splits)

lemma stampPage_Inr_D:
  assumes "stampPage lib font uid token signatureInfo timestamp n i page = Inr page'"
  shows "\<exists>textWidth.
        widthOfTextAtSize lib font (footerText uid token signatureInfo timestamp i n) fontSize
          = Inr textWidth \<and>
        page' = page\<lparr>page_contents := page_contents page @
          [DrawText (footerText uid token signatureInfo timestamp i n)
            \<lparr>opt_x = divide_double (minus_double (page_width page) textWidth) 2, opt_y = 10, opt_size = fontSize,
             opt_font = font,
             opt_color = rgb (literal_double (7 / 10)) (literal_double (7 / 10))
                           (literal_double (7 / 10)),
             opt_opacity = 1 / 2\<rparr>]\<rparr>"
  using assms by (auto simp: stampPage_def Let_def drawText_Inr_iff split: sum.splits)

lemma stampPages_step:
  assumes "i < length pages"
    and "stampPages lib font uid token signatureInfo timestamp i pages = Inr pages'"
  obtains p where
    "stampPage lib font uid token signatureInfo timestamp (length pages) i (pages ! i) = Inr p"
    and "stampPages lib font uid token signatureInfo timestamp (i + 1) (pages[i := p]) = Inr pages'"
  using assms by (auto simp: stampPages.simps [of _ _ _ _ _ _ i pages] split: sum.splits)

lemma stampPages_length:
  "stampPages lib font uid token signatureInfo timestamp i pages = Inr pages' \<Longrightarrow>
     length pages' = length pages"
proof (induction lib font uid token signatureInfo timestamp i pages rule: stampPages.induct)
  case (1 lib font uid token signatureInfo timestamp i pages)
  show ?case
  proof (cases "i < length pages")
    case True
    from stampPages_step [OF True "1.prems"] obtain p where
      p: "stampPage lib font uid token signatureInfo timestamp (length pages) i (pages ! i) = Inr p"
      and rest: "stampPages lib font uid token signatureInfo timestamp (i + 1) (pages[i := p]) = Inr pages'"
      by blast
    from "1.IH" [OF True p rest] show ?thesis by simp
  next
    case False
    with "1.prems" show ?thesis by (simp add: stampPages.simps [of _ _ _ _ _ _ i pages])
  qed
qed

lemma stampPages_nth:
  "stampPages lib font uid token signatureInfo timestamp i pages = Inr pages' \<Longrightarrow>
   j < length pages \<Longrightarrow>
     (if j < i then pages' ! j = pages ! j
      else stampPage lib font uid token signatureInfo timestamp (length pages) j (pages ! j)
             = Inr (pages' ! j))"
proof (induction lib font uid token signatureInfo timestamp i pages rule: stampPages.induct)
  case (1 lib font uid token signatureInfo timestamp i pages)
  show ?case
  proof (cases "i < length pages")
    case True
    from stampPages_step [OF True "1.prems"(1)] obtain p where
      p: "stampPage lib font uid token signatureInfo timestamp (length pages) i (pages ! i) = Inr p"
      and rest: "stampPages lib font uid token signatureInfo timestamp (i + 1) (pages[i := p]) = Inr pages'"
      by blast
    have j: "j < length (pages[i := p])" using "1.prems"(2) by simp
    note ih = "1.IH" [OF True p rest j]
    show ?thesis
    proof (cases "j < i")
      case True
      with ih show ?thesis by (simp split: if_splits)
    next
      case False
      show ?thesis
      proof (cases "j = i")
        case True
        with ih p \<open>i < length pages\<close> show ?thesis by (simp split: if_splits)
      next
        case False
        with \<open>\<not> j < i\<close> ih show ?thesis by (simp split: if_splits)
      qed
    qed
  next
    case False
    with "1.prems" show ?thesis by (simp add: stampPages.simps [of _ _ _ _ _ _ i pages])
  qed
qed

lemma stampPages_succeeds:
  "(\<And>j. i \<le> j \<Longrightarrow> j < length pages \<Longrightarrow>
       \<exists>p. stampPage lib font uid token signatureInfo timestamp (length pages) j (pages ! j) = Inr p) \<Longrightarrow>
   \<exists>pages'. stampPages lib font uid token signatureInfo timestamp i pages = Inr pages'"
proof (induction lib font uid token signatureInfo timestamp i pages rule: stampPages.induct)
  case (1 lib font uid token signatureInfo timestamp i pages)
  show ?case
  proof (cases "i < length pages")
    case True
    from "1.prems" [of i] True obtain p where
      p: "stampPage lib font uid token signatureInfo timestamp (length pages) i (pages ! i) = Inr p"
      by auto
    have "\<exists>pages'. stampPages lib font uid token signatureInfo timestamp (i + 1) (pages[i := p]) = Inr pages'"
    proof (rule "1.IH" [OF True p])
      fix j assume "i + 1 \<le> j" "j < length (pages[i := p])"
      then show "\<exists>pa. stampPage lib font uid token signatureInfo timestamp
                    (length (pages[i := p])) j (pages[i := p] ! j) = Inr pa"
        using "1.prems" [of j] by simp
    qed
    with True p show ?thesis by (simp add: stampPages.simps [of _ _ _ _ _ _ i pages])
  next
    case False
    then show ?thesis by (simp add: stampPages.simps [of _ _ _ _ _ _ i pages])
  qed
qed

lemma stampPages_empty_signature:
  "stampPages lib font uid token (Some []) timestamp i pages =
   stampPages lib font uid token None timestamp i pages"
proof (induction lib font uid token "None :: string option" timestamp i pages
    rule: stampPages.induct)
  case (1 lib font uid token timestamp i pages)
  have eq: "stampPage lib font uid token (Some []) timestamp (length pages) i (pages ! i) =
            stampPage lib font uid token None timestamp (length pages) i (pages ! i)"
    by (simp add: stampPage_def footerText_def)
  show ?case
  proof (cases "i < length pages")
    case True
    show ?thesis
    proof (cases "stampPage lib font uid token None timestamp (length pages) i (pages ! i)")
      case (Inl e)
      with True eq show ?thesis
        by (simp add: stampPages.simps [of _ _ _ _ _ _ i pages])
    next
      case (Inr p)
      with True eq "1.hyps" [OF True Inr] show ?thesis
        by (simp add: stampPages.simps [of _ _ _ _ _ _ i pages])
    qed
  next
    case False
    then show ?thesis by (simp add: stampPages.simps [of _ _ _ _ _ _ i pages])
  qed
qed

lemma stampPages_footer_cong:
  "(\<And>k n. footerText uid token signatureInfo timestamp k n =
           footerText uid' token' signatureInfo' timestamp' k n) \<Longrightarrow>
   stampPages lib font uid token signatureInfo timestamp i pages =
   stampPages lib font uid' token' signatureInfo' timestamp' i pages"
proof (induction lib font uid' token' signatureInfo' timestamp' i pages
    rule: stampPages.induct)
  case (1 lib font uid' token' signatureInfo' timestamp' i pages)
  have eq: "stampPage lib font uid token signatureInfo timestamp (length pages) i (pages ! i) =
            stampPage lib font uid' token' signatureInfo' timestamp' (length pages) i (pages ! i)"
    by (simp add: stampPage_def "1.prems" Let_def)
  show ?case
  proof (cases "i < length pages")
    case True
    show ?thesis
    proof (cases "stampPage lib font uid' token' signatureInfo' timestamp' (length pages) i
                    (pages ! i)")
      case (Inl e)
      with True eq show ?thesis
        by (simp add: stampPages.simps [of _ _ _ _ _ _ i pages])
    next
      case (Inr p)
      with True eq "1.IH" [OF True Inr "1.prems"] show ?thesis
        by (simp add: stampPages.simps [of _ _ _ _ _ _ i pages])
    qed
  next
    case False
    then show ?thesis by (simp add: stampPages.simps [of _ _ _ _ _ _ i pages])
  qed
qed

lemma addUidAndTokenToPdf_footer_cong:
  assumes "\<And>k n. footerText uid token signatureInfo (timestampOf clock) k n =
                 footerText uid' token' signatureInfo' (timestampOf clock') k n"
  shows "addUidAndTokenToPdf lib clock pdfBuffer uid token signatureInfo =
         addUidAndTokenToPdf lib clock' pdfBuffer uid' token' signatureInfo'"
proof -
  have "stampDocument lib clock pdfDoc uid token signatureInfo =
        stampDocument lib clock' pdfDoc uid' token' signatureInfo'" for pdfDoc
    by (simp add: stampDocument_def Let_def stampPages_footer_cong [OF assms]
        cong: sum.case_cong)
  then have "tryStamp lib clock pdfBuffer uid token signatureInfo =
        tryStamp lib clock' pdfBuffer uid' token' signatureInfo'"
    by (simp add: tryStamp_def cong: sum.case_cong)
  then show ?thesis by (simp add: addUidAndTokenToPdf_def)
qed

lemma stampDocument_empty_signature:
  "stampDocument lib clock pdfDoc uid token (Some []) =
   stampDocument lib clock pdfDoc uid token None"
  by (simp add: stampDocument_def Let_def stampPages_empty_signature cong: sum.case_cong)

lemma tryStamp_empty_signature:
  "tryStamp lib clock pdfBuffer uid token (Some []) =
   tryStamp lib clock pdfBuffer uid token None"
  by (simp add: tryStamp_def stampDocument_empty_signature cong: sum.case_cong)

section \<open>The anatomy of a successful call\<close>

lemma stampDocument_Inr_D:
  assumes "stampDocument lib clock pdfDoc uid token signatureInfo = Inr stamped"
  obtains font where "embedFont lib pdfDoc Helvetica = Inr font"
    and "stampPages lib font uid token signatureInfo (timestampOf clock) 0 (getPages pdfDoc)
           = Inr (getPages stamped)"
  using assms by (auto simp: stampDocument_def Let_def split: sum.splits)

lemma stampDocument_length:
  assumes "stampDocument lib clock pdfDoc uid token signatureInfo = Inr stamped"
  shows "length (getPages stamped) = length (getPages pdfDoc)"
  using assms by (auto elim!: stampDocument_Inr_D dest: stampPages_length)

lemma stampDocument_page:
  assumes "stampDocument lib clock pdfDoc uid token signatureInfo = Inr stamped"
    and "j < length (getPages pdfDoc)"
  shows "\<exists>font textWidth.
      embedFont lib pdfDoc Helvetica = Inr font \<and>
      widthOfTextAtSize lib font
        (footerText uid token signatureInfo (timestampOf clock) j (length (getPages pdfDoc))) fontSize
        = Inr textWidth \<and>
      getPages stamped ! j = (getPages pdfDoc ! j)
        \<lparr>page_contents := page_contents (getPages pdfDoc ! j) @
          [DrawText (footerText uid token signatureInfo (timestampOf clock) j (length (getPages pdfDoc)))
            \<lparr>opt_x = divide_double (minus_double (page_width (getPages pdfDoc ! j)) textWidth) 2, opt_y = 10,
             opt_size = fontSize, opt_font = font,
             opt_color = rgb (literal_double (7 / 10)) (literal_double (7 / 10))
                           (literal_double (7 / 10)),
             opt_opacity = 1 / 2\<rparr>]\<rparr>"
proof -
  from assms(1) obtain font where
    font: "embedFont lib pdfDoc Helvetica = Inr font"
    and loop: "stampPages lib font uid token signatureInfo (timestampOf clock) 0 (getPages pdfDoc)
                 = Inr (getPages stamped)"
    by (rule stampDocument_Inr_D)
  from stampPages_nth [OF loop assms(2)] have
    "stampPage lib font uid token signatureInfo (timestampOf clock) (length (getPages pdfDoc)) j
       (getPages pdfDoc ! j) = Inr (getPages stamped ! j)"
    by simp
  from stampPage_Inr_D [OF this] font show ?thesis by blast
qed

lemma stampDocument_contents:
  assumes "stampDocument lib clock pdfDoc uid token signatureInfo = Inr stamped"
    and "j < length (getPages pdfDoc)"
  shows "\<exists>opts.
      page_contents (getPages stamped ! j) = page_contents (getPages pdfDoc ! j) @
        [DrawText (footerText uid token signatureInfo (timestampOf clock) j (length (getPages pdfDoc)))
           opts]"
  using stampDocument_page [OF assms] by auto

lemma addUidAndTokenToPdf_Inr_D:
  assumes "addUidAndTokenToPdf lib clock pdfBuffer uid token signatureInfo = (out, Inr bytes)"
  obtains pdfDoc stamped where "load lib pdfBuffer = Inr pdfDoc"
    and "stampDocument lib clock pdfDoc uid token signatureInfo = Inr stamped"
    and "save lib stamped = Inr bytes" and "out = []"
  using assms by (auto simp: addUidAndTokenToPdf_def tryStamp_def split: sum.splits)

lemma addUidAndTokenToPdf_Inr_I:
  assumes "load lib pdfBuffer = Inr pdfDoc"
    and "stampDocument lib clock pdfDoc uid token signatureInfo = Inr stamped"
    and "save lib stamped = Inr bytes"
  shows "addUidAndTokenToPdf lib clock pdfBuffer uid token signatureInfo = ([], Inr bytes)"
  using assms by (simp add: addUidAndTokenToPdf_def tryStamp_def)

lemma addUidAndTokenToPdf_succeeds:
  assumes "load lib pdfBuffer = Inr pdfDoc"
    and "embedFont lib pdfDoc Helvetica = Inr font"
    and "\<And>j. j < length (getPages pdfDoc) \<Longrightarrow>
           \<exists>p. stampPage lib font uid token signatureInfo (timestampOf clock) (length (getPages pdfDoc)) j
                 (getPages pdfDoc ! j) = Inr p"
    and "\<And>d. \<exists>b. save lib d = Inr b"
  shows "\<exists>bytes. addUidAndTokenToPdf lib clock pdfBuffer uid token signatureInfo
           = ([], Inr bytes)"
proof -
  from stampPages_succeeds [of 0 "getPages pdfDoc" lib font uid token signatureInfo
      "timestampOf clock"]
    assms(3)
  obtain pages' where
    "stampPages lib font uid token signatureInfo (timestampOf clock) 0 (getPages pdfDoc) = Inr pages'"
    by auto
  with assms(2) have
    s: "stampDocument lib clock pdfDoc uid token signatureInfo = Inr (PDFDocument pages')"
    by (simp add: stampDocument_def Let_def)
  from assms(4) obtain b where "save lib (PDFDocument pages') = Inr b" by blast
  from addUidAndTokenToPdf_Inr_I [OF assms(1) s this] show ?thesis by blast
qed

lemma footerText_verbatim:
  "\<exists>rest. footerText uid token signatureInfo timestamp k n =
     ''BeaverDoc - UID: '' @ uid @ '' | Token: '' @ token @ rest"
  by (cases signatureInfo) (simp_all add: footerText_def Let_def)

lemma addUidAndTokenToPdf_renders:
  assumes "load lib pdfBuffer = Inr pdfDoc"
    and "embedFont lib pdfDoc Helvetica = Inr font"
    and "\<And>t. \<exists>w. widthOfTextAtSize lib font t 6 = Inr w"
    and "\<And>p t opts. drawText_fault lib p t opts = None"
    and "\<And>d. \<exists>b. serialize lib d = Inr b"
  shows "\<exists>bytes stamped.
      addUidAndTokenToPdf lib clock pdfBuffer uid token signatureInfo = ([], Inr bytes) \<and>
      save lib stamped = Inr bytes \<and>
      length (getPages stamped) = length (getPages pdfDoc) \<and>
      (\<forall>j < length (getPages pdfDoc). \<exists>rest opts.
         page_contents (getPages stamped ! j) = page_contents (getPages pdfDoc ! j) @
           [DrawText (''BeaverDoc - UID: '' @ uid @ '' | Token: '' @ token @ rest) opts])"
proof -
  have page: "\<exists>p. stampPage lib font uid token signatureInfo (timestampOf clock)
      (length (getPages pdfDoc)) j (getPages pdfDoc ! j) = Inr p" for j
  proof -
    from assms(3) obtain w where
      "widthOfTextAtSize lib font
         (footerText uid token signatureInfo (timestampOf clock) j (length (getPages pdfDoc))) 6
       = Inr w"
      by blast
    then show ?thesis
      by (simp add: stampPage_def drawText_def fontSize_def Let_def assms(4))
  qed
  have sv: "\<exists>b. save lib d = Inr b" for d
    using assms(5) by (simp add: save_def)
  from addUidAndTokenToPdf_succeeds [OF assms(1,2) page sv] obtain bytes where
    r: "addUidAndTokenToPdf lib clock pdfBuffer uid token signatureInfo = ([], Inr bytes)"
    by blast
  then obtain pdfDoc' stamped where
    l: "load lib pdfBuffer = Inr pdfDoc'"
    and s: "stampDocument lib clock pdfDoc' uid token signatureInfo = Inr stamped"
    and b: "save lib stamped = Inr bytes"
    by (rule addUidAndTokenToPdf_Inr_D)
  from l assms(1) have [simp]: "pdfDoc' = pdfDoc" by simp
  have "\<exists>rest opts.
         page_contents (getPages stamped ! j) = page_contents (getPages pdfDoc ! j) @
           [DrawText (''BeaverDoc - UID: '' @ uid @ '' | Token: '' @ token @ rest) opts]"
    if "j < length (getPages pdfDoc)" for j
  proof -
    from stampDocument_contents [OF s [simplified] that] obtain opts where
      c: "page_contents (getPages stamped ! j) = page_contents (getPages pdfDoc ! j) @
        [DrawText (footerText uid token signatureInfo (timestampOf clock) j
           (length (getPages pdfDoc))) opts]"
      by blast
    from footerText_verbatim obtain rest where
      "footerText uid token signatureInfo (timestampOf clock) j (length (getPages pdfDoc)) =
         ''BeaverDoc - UID: '' @ uid @ '' | Token: '' @ token @ rest"
      by blast
    with c show ?thesis by auto
  qed
  with r b stampDocument_length [OF s [simplified]] show ?thesis by blast
qed

section \<open>The generators\<close>

lemma isDigit_separators:
  "isDigit c \<Longrightarrow> c \<noteq> CHR ''T'' \<and> c \<noteq> CHR ''-'' \<and> c \<noteq> CHR '':'' \<and> c \<noteq> CHR '' ''"
  by (auto simp: isDigit_def)

lemma isHex_dash: "isHex c \<Longrightarrow> c \<noteq> CHR ''-''"
  by (auto simp: isHex_def)

lemma replaceAllEmpty_append:
  "replaceAllEmpty c (s @ t) = replaceAllEmpty c s @ replaceAllEmpty c t"
  by (simp add: replaceAllEmpty_def)

lemma replaceAllEmpty_Cons:
  "replaceAllEmpty c (x # s) = (if x = c then replaceAllEmpty c s else x # replaceAllEmpty c s)"
  "replaceAllEmpty c [] = []"
  by (simp_all add: replaceAllEmpty_def)

lemma replaceAllEmpty_digits:
  "list_all isDigit s \<Longrightarrow> replaceAllEmpty CHR ''-'' s = s"
  "list_all isDigit s \<Longrightarrow> replaceAllEmpty CHR '':'' s = s"
  by (auto simp: replaceAllEmpty_def list_all_iff dest: isDigit_separators intro!: filter_True)

lemma replaceAllEmpty_hexs:
  "list_all isHex s \<Longrightarrow> replaceAllEmpty CHR ''-'' s = s"
  by (auto simp: replaceAllEmpty_def list_all_iff dest: isHex_dash intro!: filter_True)

lemma datePart:
  assumes "toISOString env = year @ ''-'' @ month @ ''-'' @ day @ ''T'' @ restDate"
    and "digits 4 year" and "digits 2 month" and "digits 2 day"
  shows "replaceAllEmpty CHR ''-'' (splitFirst CHR ''T'' (toISOString env)) = year @ month @ day"
proof -
  from assms(2-4) have d: "list_all isDigit year" "list_all isDigit month" "list_all isDigit day"
    by (simp_all add: digits_def)
  have "splitFirst CHR ''T'' (toISOString env) = year @ ''-'' @ month @ ''-'' @ day"
    unfolding assms(1) by (simp add: splitFirst_def takeWhile_tail d [unfolded list_all_iff]
        isDigit_separators)
  then show ?thesis
    by (simp add: replaceAllEmpty_append replaceAllEmpty_Cons replaceAllEmpty_digits d)
qed

lemma timePart:
  assumes "toTimeString env = hours @ '':'' @ minutes @ '':'' @ seconds @ '' '' @ restTime"
    and "digits 2 hours" and "digits 2 minutes" and "digits 2 seconds"
  shows "replaceAllEmpty CHR '':'' (splitFirst CHR '' '' (toTimeString env))
           = hours @ minutes @ seconds"
proof -
  from assms(2-4) have d: "list_all isDigit hours" "list_all isDigit minutes"
      "list_all isDigit seconds"
    by (simp_all add: digits_def)
  have "splitFirst CHR '' '' (toTimeString env) = hours @ '':'' @ minutes @ '':'' @ seconds"
    unfolding assms(1) by (simp add: splitFirst_def takeWhile_tail d [unfolded list_all_iff]
        isDigit_separators)
  then show ?thesis
    by (simp add: replaceAllEmpty_append replaceAllEmpty_Cons replaceAllEmpty_digits d)
qed

lemma randomPart:
  assumes "randomUUID env = h8 @ ''-'' @ h4a @ ''-'' @ h4b @ ''-'' @ h4c @ ''-'' @ h12"
    and "hexs 8 h8" and "hexs 4 h4a" and "hexs 4 h4b" and "hexs 4 h4c" and "hexs 12 h12"
  shows "substring0 16 (replaceAllEmpty CHR ''-'' (randomUUID env)) = h8 @ h4a @ h4b"
proof -
  from assms(2-6) have h: "list_all isHex h8" "list_all isHex h4a" "list_all isHex h4b"
      "list_all isHex h4c" "list_all isHex h12"
    and n: "length h8 = 8" "length h4a = 4" "length h4b = 4"
    by (simp_all add: hexs_def)
  have "replaceAllEmpty CHR ''-'' (randomUUID env) = h8 @ h4a @ h4b @ h4c @ h12"
    unfolding assms(1)
    by (simp add: replaceAllEmpty_append replaceAllEmpty_Cons replaceAllEmpty_hexs h)
  with n show ?thesis by (simp add: substring0_def)
qed


lemmas sample_eval =
  addUidAndTokenToPdf_def tryStamp_def stampDocument_def save_def prepareForSave_def
  timestampOf_def sample_clock_def sample_lib_def sample_page_def
  sample_stamped_def stampPages.simps stampPage_def drawText_def footerText_def
  numberToString.simps digit_char_def fontSize_def rgb_def Let_def
  minus_double_def divide_double_def

section \<open>The handler of the upload route\<close>


section \<open>The text of the footer\<close>

text \<open>
  C1. When no signature information is supplied and the call succeeds on a file that
  parses to N pages, the document that is serialised has N pages and the operator
  appended to page i (counted from 1, for every i from 1 to N) draws exactly the text
  "BeaverDoc - UID: <uid> | Token: <token> | Page <i>/<N>", whatever the strings uid and
  token are; the two numerals of the page field denote i and N.
\<close>

theorem footer_text_without_signature:
  assumes "load lib pdfBuffer = Inr pdfDoc"
    and "addUidAndTokenToPdf lib clock pdfBuffer uid token None = (out, Inr bytes)"
    and "1 \<le> i" and "i \<le> length (getPages pdfDoc)"
  shows "\<exists>stamped opts.
      save lib stamped = Inr bytes \<and>
      length (getPages stamped) = length (getPages pdfDoc) \<and>
      page_contents (getPages stamped ! (i - 1)) =
        page_contents (getPages pdfDoc ! (i - 1)) @
          [DrawText (''BeaverDoc - UID: '' @ uid @ '' | Token: '' @ token @ '' | Page ''
                     @ numberToString i @ ''/'' @ numberToString (length (getPages pdfDoc)))
             opts] \<and>
      decimalValue (numberToString i) = i \<and>
      decimalValue (numberToString (length (getPages pdfDoc))) = length (getPages pdfDoc)"
proof -
  from assms(2) obtain pdfDoc' stamped where
    l: "load lib pdfBuffer = Inr pdfDoc'"
    and s: "stampDocument lib clock pdfDoc' uid token None = Inr stamped"
    and b: "save lib stamped = Inr bytes"
    by (rule addUidAndTokenToPdf_Inr_D)
  from l assms(1) have [simp]: "pdfDoc' = pdfDoc" by simp
  from assms(3,4) have j: "i - 1 < length (getPages pdfDoc)" by simp
  from stampDocument_contents [OF s [simplified] j] obtain opts where
    "page_contents (getPages stamped ! (i - 1)) = page_contents (getPages pdfDoc ! (i - 1)) @
        [DrawText (footerText uid token None (timestampOf clock) (i - 1) (length (getPages pdfDoc))) opts]"
    by blast
  moreover from assms(3) have "i - 1 + 1 = i" by simp
  ultimately have "page_contents (getPages stamped ! (i - 1)) =
        page_contents (getPages pdfDoc ! (i - 1)) @
          [DrawText (''BeaverDoc - UID: '' @ uid @ '' | Token: '' @ token @ '' | Page ''
                     @ numberToString i @ ''/'' @ numberToString (length (getPages pdfDoc)))
             opts]"
    by (simp add: footerText_def)
  with b stampDocument_length [OF s [simplified]] show ?thesis
    by (auto simp: decimalValue_numberToString)
qed

theorem footer_text_without_signature_witness:
  "load sample_lib [200] = Inr (PDFDocument [sample_page 200]) \<and>
   addUidAndTokenToPdf sample_lib sample_clock [200] ''UID-X'' ''DOC-Y'' None
     = ([], Inr [0x53]) \<and>
   (\<exists>stamped opts.
      save sample_lib stamped = Inr [0x53] \<and>
      length (getPages stamped) = 1 \<and>
      page_contents (getPages stamped ! 0) =
        [Existing ''body'',
         DrawText ''BeaverDoc - UID: UID-X | Token: DOC-Y | Page 1/1'' opts])"
proof -
  have l: "load sample_lib [200] = Inr (PDFDocument [sample_page 200])"
    by (simp add: sample_lib_def)
  have r: "addUidAndTokenToPdf sample_lib sample_clock [200] ''UID-X'' ''DOC-Y'' None
             = ([], Inr [0x53])"
    by (simp add: sample_eval)
  from footer_text_without_signature [OF l r, of 1] l r show ?thesis
    by (auto simp: numberToString.simps digit_char_def sample_page_def)
qed

text \<open>
  C2, as stated, fails for one value. The claim reads: when signatureInfo is supplied,
  every footer has the signature and the timestamp appended. The test of the code is
  truthiness, so a supplied empty string appends nothing: on the sample page the footer
  is then the bare text, not the text with the two fields appended.
\<close>

theorem signature_supplied_counterexample:
  "stampDocument sample_lib sample_clock (PDFDocument [sample_page 200])
     ''UID-X'' ''DOC-Y'' (Some '''')
   = Inr (PDFDocument
       [\<lparr>page_width = 200, page_height = 842,
         page_contents =
           [Existing ''body'',
            DrawText ''BeaverDoc - UID: UID-X | Token: DOC-Y | Page 1/1''
              \<lparr>opt_x = 28, opt_y = 10, opt_size = 6, opt_font = PDFFont Helvetica,
               opt_color = RGB (literal_double (7 / 10)) (literal_double (7 / 10))
                               (literal_double (7 / 10)),
               opt_opacity = 1 / 2\<rparr>]\<rparr>]) \<and>
   footerText ''UID-X'' ''DOC-Y'' (Some '''') ''03/11/2026 10:15:00'' 0 1 \<noteq>
     ''BeaverDoc - UID: UID-X | Token: DOC-Y | Page 1/1'' @ '' | '' @ '''' @ '' | Horodat''
       @ [CHR 0xC3, CHR 0xA9] @ '' le '' @ ''03/11/2026 10:15:00''"
  by (simp add: sample_eval)

text \<open>
  C2, amended: on a successful call, when signatureInfo is supplied and is not the empty
  string, the text drawn on page i is the base text followed by
  " | <signatureInfo> | Horodat\'e le <timestamp>", where the timestamp is the time read
  by the call in the platform's rendering for the French locale, the tag fr-FR; when
  signatureInfo is omitted or empty, the text drawn is the base text alone, with neither
  field.
\<close>

theorem footer_text_with_signature:
  assumes "load lib pdfBuffer = Inr pdfDoc"
    and "addUidAndTokenToPdf lib clock pdfBuffer uid token signatureInfo = (out, Inr bytes)"
    and "1 \<le> i" and "i \<le> length (getPages pdfDoc)"
  shows "let base = ''BeaverDoc - UID: '' @ uid @ '' | Token: '' @ token @ '' | Page ''
                    @ numberToString i @ ''/'' @ numberToString (length (getPages pdfDoc))
     in \<exists>stamped opts.
      save lib stamped = Inr bytes \<and>
      page_contents (getPages stamped ! (i - 1)) =
        page_contents (getPages pdfDoc ! (i - 1)) @
          [DrawText
             (case signatureInfo of
                None \<Rightarrow> base
              | Some s \<Rightarrow>
                  if s = [] then base
                  else base @ '' | '' @ s @ '' | Horodat'' @ [CHR 0xC3, CHR 0xA9] @ '' le ''
                       @ toLocaleString clock (newDate clock) ''fr-FR'')
             opts]"
proof -
  from assms(2) obtain pdfDoc' stamped where
    l: "load lib pdfBuffer = Inr pdfDoc'"
    and s: "stampDocument lib clock pdfDoc' uid token signatureInfo = Inr stamped"
    and b: "save lib stamped = Inr bytes"
    by (rule addUidAndTokenToPdf_Inr_D)
  from l assms(1) have [simp]: "pdfDoc' = pdfDoc" by simp
  from assms(3,4) have j: "i - 1 < length (getPages pdfDoc)" by simp
  from stampDocument_contents [OF s [simplified] j] obtain opts where
    c: "page_contents (getPages stamped ! (i - 1)) = page_contents (getPages pdfDoc ! (i - 1)) @
        [DrawText (footerText uid token signatureInfo (timestampOf clock) (i - 1)
           (length (getPages pdfDoc))) opts]"
    by blast
  have "footerText uid token signatureInfo (timestampOf clock) (i - 1)
          (length (getPages pdfDoc)) =
      (let base = ''BeaverDoc - UID: '' @ uid @ '' | Token: '' @ token @ '' | Page ''
                    @ numberToString i @ ''/'' @ numberToString (length (getPages pdfDoc))
       in case signatureInfo of
                None \<Rightarrow> base
              | Some s \<Rightarrow>
                  if s = [] then base
                  else base @ '' | '' @ s @ '' | Horodat'' @ [CHR 0xC3, CHR 0xA9] @ '' le ''
                       @ toLocaleString clock (newDate clock) ''fr-FR'')"
    using assms(3) by (simp add: footerText_def timestampOf_def Let_def split: option.splits)
  with c b show ?thesis by (auto simp: Let_def)
qed

theorem footer_text_with_signature_witness:
  "load sample_lib [200, 100, 50]
     = Inr (PDFDocument [sample_page 200, sample_page 100, sample_page 50]) \<and>
   addUidAndTokenToPdf sample_lib sample_clock [200, 100, 50] ''UID-X'' ''DOC-Y''
     (Some ''Signed by Alice'') = ([], Inr [2, 2, 2]) \<and>
   (\<exists>stamped opts.
      save sample_lib stamped = Inr [2, 2, 2] \<and>
      page_contents (getPages stamped ! 1) =
        [Existing ''body'',
         DrawText (''BeaverDoc - UID: UID-X | Token: DOC-Y | Page 2/3 | Signed by Alice | Horodat''
                   @ [CHR 0xC3, CHR 0xA9] @ '' le 03/11/2026 10:15:00'') opts])"
proof -
  have l: "load sample_lib [200, 100, 50]
     = Inr (PDFDocument [sample_page 200, sample_page 100, sample_page 50])"
    by (simp add: sample_lib_def)
  have r: "addUidAndTokenToPdf sample_lib sample_clock [200, 100, 50] ''UID-X''
     ''DOC-Y'' (Some ''Signed by Alice'') = ([], Inr [2, 2, 2])"
    by (simp add: sample_eval)
  from footer_text_with_signature [OF l r, of 2] l r show ?thesis
    by (auto simp: numberToString.simps digit_char_def sample_page_def Let_def
        sample_clock_def)
qed

text \<open>
  C9. The empty string as signatureInfo is treated as no signatureInfo: the footer text
  is the base text, without the signature field and without the timestamp field, and the
  whole call behaves as the call without the argument.
\<close>

theorem empty_signature_is_absent:
  "footerText uid token (Some '''') timestamp i n =
     ''BeaverDoc - UID: '' @ uid @ '' | Token: '' @ token @ '' | Page ''
       @ numberToString (i + 1) @ ''/'' @ numberToString n \<and>
   footerText uid token (Some '''') timestamp i n = footerText uid token None timestamp i n \<and>
   addUidAndTokenToPdf lib clock pdfBuffer uid token (Some '''') =
     addUidAndTokenToPdf lib clock pdfBuffer uid token None"
  by (simp add: footerText_def addUidAndTokenToPdf_def tryStamp_empty_signature)

section \<open>Placement, page count and content\<close>




text \<open>
  C4, as stated, fails on two inputs. The claim reads: the output has exactly N pages and
  every output page carries exactly one footer. A document that was stamped before is a
  valid input of one page: its output page carries two footers. A document without pages
  is saved with one blank page, which carries no footer.
\<close>

theorem one_footer_counterexample:
  "load sample_lib [0x53] = Inr sample_stamped \<and>
   stampDocument sample_lib sample_clock sample_stamped ''UID-Z'' ''DOC-W'' None
   = Inr (PDFDocument
       [\<lparr>page_width = 200, page_height = 842,
         page_contents =
           [Existing ''body'',
            DrawText ''BeaverDoc - UID: UID-X | Token: DOC-Y | Page 1/1''
              \<lparr>opt_x = 28, opt_y = 10, opt_size = 6, opt_font = PDFFont Helvetica,
               opt_color = RGB (literal_double (7 / 10)) (literal_double (7 / 10))
                               (literal_double (7 / 10)),
               opt_opacity = 1 / 2\<rparr>,
            DrawText ''BeaverDoc - UID: UID-Z | Token: DOC-W | Page 1/1''
              \<lparr>opt_x = 28, opt_y = 10, opt_size = 6, opt_font = PDFFont Helvetica,
               opt_color = RGB (literal_double (7 / 10)) (literal_double (7 / 10))
                               (literal_double (7 / 10)),
               opt_opacity = 1 / 2\<rparr>]\<rparr>]) \<and>
   addUidAndTokenToPdf sample_lib sample_clock [0x53] ''UID-Z'' ''DOC-W'' None = ([], Inr [3]) \<and>
   load sample_lib [0x30] = Inr (PDFDocument []) \<and>
   stampDocument sample_lib sample_clock (PDFDocument []) ''UID-Z'' ''DOC-W'' None
   = Inr (PDFDocument []) \<and>
   prepareForSave (PDFDocument [] :: string pdf_document) = PDFDocument [defaultPage] \<and>
   page_contents (defaultPage :: string pdf_page) = [] \<and>
   addUidAndTokenToPdf sample_lib sample_clock [0x30] ''UID-Z'' ''DOC-W'' None = ([], Inr [0])"
  by (simp add: sample_eval defaultPage_def)

text \<open>
  C4, amended: on a successful call on a file of N pages, N at least one, the document
  that is serialised as the output has N pages; every page keeps its size, and its
  content stream is the content the page had in the input, unchanged and in place,
  followed by exactly one text operator added by the call: the footer of that page, with
  its text, drawn at size 6 and y = 10 in the pale grey at half opacity. A page that
  already carried footers carries them still, and one more.
\<close>

theorem page_count_and_content_preserved:
  assumes "load lib pdfBuffer = Inr pdfDoc"
    and "addUidAndTokenToPdf lib clock pdfBuffer uid token signatureInfo = (out, Inr bytes)"
    and "getPages pdfDoc \<noteq> []"
  shows "\<exists>output.
      serialize lib output = Inr bytes \<and>
      length (getPages output) = length (getPages pdfDoc) \<and>
      (\<forall>j < length (getPages pdfDoc).
         page_width (getPages output ! j) = page_width (getPages pdfDoc ! j) \<and>
         page_height (getPages output ! j) = page_height (getPages pdfDoc ! j) \<and>
         (\<exists>opts.
            page_contents (getPages output ! j) =
              page_contents (getPages pdfDoc ! j) @
                [DrawText
                   (''BeaverDoc - UID: '' @ uid @ '' | Token: '' @ token @ '' | Page ''
                    @ numberToString (j + 1) @ ''/'' @ numberToString (length (getPages pdfDoc))
                    @ (case signatureInfo of
                         None \<Rightarrow> []
                       | Some s \<Rightarrow>
                           if s = [] then []
                           else '' | '' @ s @ '' | Horodat'' @ [CHR 0xC3, CHR 0xA9] @ '' le ''
                                @ toLocaleString clock (newDate clock) ''fr-FR''))
                   opts] \<and>
            opt_size opts = 6 \<and> opt_y opts = 10 \<and> opt_opacity opts = 1 / 2 \<and>
            opt_color opts = RGB (literal_double (7 / 10)) (literal_double (7 / 10))
                                 (literal_double (7 / 10))))"
proof -
  from assms(2) obtain pdfDoc' stamped where
    l: "load lib pdfBuffer = Inr pdfDoc'"
    and s: "stampDocument lib clock pdfDoc' uid token signatureInfo = Inr stamped"
    and b: "save lib stamped = Inr bytes"
    by (rule addUidAndTokenToPdf_Inr_D)
  from l assms(1) have [simp]: "pdfDoc' = pdfDoc" by simp
  have n: "length (getPages stamped) = length (getPages pdfDoc)"
    using stampDocument_length [OF s] by simp
  with assms(3) have "getPages stamped \<noteq> []" by auto
  with b have out: "serialize lib stamped = Inr bytes"
    by (simp add: save_def prepareForSave_def)
  have ft: "footerText uid token signatureInfo (timestampOf clock) k (length (getPages pdfDoc)) =
      ''BeaverDoc - UID: '' @ uid @ '' | Token: '' @ token @ '' | Page ''
      @ numberToString (k + 1) @ ''/'' @ numberToString (length (getPages pdfDoc))
      @ (case signatureInfo of
           None \<Rightarrow> []
         | Some s \<Rightarrow>
             if s = [] then []
             else '' | '' @ s @ '' | Horodat'' @ [CHR 0xC3, CHR 0xA9] @ '' le ''
                  @ toLocaleString clock (newDate clock) ''fr-FR'')" for k
    by (simp add: footerText_def timestampOf_def split: option.splits)
  have "page_width (getPages stamped ! j) = page_width (getPages pdfDoc ! j) \<and>
        page_height (getPages stamped ! j) = page_height (getPages pdfDoc ! j) \<and>
        (\<exists>opts.
            page_contents (getPages stamped ! j) =
              page_contents (getPages pdfDoc ! j) @
                [DrawText
                   (''BeaverDoc - UID: '' @ uid @ '' | Token: '' @ token @ '' | Page ''
                    @ numberToString (j + 1) @ ''/'' @ numberToString (length (getPages pdfDoc))
                    @ (case signatureInfo of
                         None \<Rightarrow> []
                       | Some s \<Rightarrow>
                           if s = [] then []
                           else '' | '' @ s @ '' | Horodat'' @ [CHR 0xC3, CHR 0xA9] @ '' le ''
                                @ toLocaleString clock (newDate clock) ''fr-FR''))
                   opts] \<and>
            opt_size opts = 6 \<and> opt_y opts = 10 \<and> opt_opacity opts = 1 / 2 \<and>
            opt_color opts = RGB (literal_double (7 / 10)) (literal_double (7 / 10))
                                 (literal_double (7 / 10)))"
    if "j < length (getPages pdfDoc)" for j
    using stampDocument_page [OF s [simplified] that]
    unfolding ft by (auto simp: fontSize_def rgb_def)
  with out n show ?thesis by blast
qed

theorem page_count_and_content_preserved_witness:
  "load sample_lib [200, 100, 50]
     = Inr (PDFDocument [sample_page 200, sample_page 100, sample_page 50]) \<and>
   addUidAndTokenToPdf sample_lib sample_clock [200, 100, 50] ''UID-X'' ''DOC-Y'' None
     = ([], Inr [2, 2, 2]) \<and>
   (\<exists>output.
      serialize sample_lib output = Inr [2, 2, 2] \<and>
      length (getPages output) = 3 \<and>
      (\<exists>opts. page_contents (getPages output ! 0) =
         [Existing ''body'',
          DrawText ''BeaverDoc - UID: UID-X | Token: DOC-Y | Page 1/3'' opts]) \<and>
      (\<exists>opts. page_contents (getPages output ! 1) =
         [Existing ''body'',
          DrawText ''BeaverDoc - UID: UID-X | Token: DOC-Y | Page 2/3'' opts]) \<and>
      (\<exists>opts. page_contents (getPages output ! 2) =
         [Existing ''body'',
          DrawText ''BeaverDoc - UID: UID-X | Token: DOC-Y | Page 3/3'' opts]))"
proof -
  have l: "load sample_lib [200, 100, 50]
     = Inr (PDFDocument [sample_page 200, sample_page 100, sample_page 50])"
    by (simp add: sample_lib_def)
  have r: "addUidAndTokenToPdf sample_lib sample_clock [200, 100, 50] ''UID-X''
     ''DOC-Y'' None = ([], Inr [2, 2, 2])"
    by (simp add: sample_eval)
  have ne: "getPages (PDFDocument [sample_page 200, sample_page 100, sample_page 50]) \<noteq> []"
    by simp
  from page_count_and_content_preserved [OF l r ne] obtain written where
    b: "serialize sample_lib written = Inr [2, 2, 2]"
    and n0: "length (getPages written) = length (getPages (PDFDocument [sample_page 200, sample_page 100, sample_page 50]))"
    and c0: "(\<forall>j < length (getPages (PDFDocument [sample_page 200, sample_page 100, sample_page 50])).
         page_width (getPages written ! j) = page_width (getPages (PDFDocument [sample_page 200, sample_page 100, sample_page 50]) ! j) \<and>
         page_height (getPages written ! j) = page_height (getPages (PDFDocument [sample_page 200, sample_page 100, sample_page 50]) ! j) \<and>
         (\<exists>opts.
            page_contents (getPages written ! j) =
              page_contents (getPages (PDFDocument [sample_page 200, sample_page 100, sample_page 50]) ! j) @
                [DrawText
                   (''BeaverDoc - UID: '' @ ''UID-X'' @ '' | Token: '' @ ''DOC-Y'' @ '' | Page ''
                    @ numberToString (j + 1) @ ''/'' @ numberToString (length (getPages (PDFDocument [sample_page 200, sample_page 100, sample_page 50])))
                    @ (case None :: string option of
                         None \<Rightarrow> []
                       | Some s \<Rightarrow>
                           if s = [] then []
                           else '' | '' @ s @ '' | Horodat'' @ [CHR 0xC3, CHR 0xA9] @ '' le ''
                                @ toLocaleString sample_clock (newDate sample_clock) ''fr-FR''))
                   opts] \<and>
            opt_size opts = 6 \<and> opt_y opts = 10 \<and> opt_opacity opts = 1 / 2 \<and>
            opt_color opts = RGB (literal_double (7 / 10)) (literal_double (7 / 10))
                                 (literal_double (7 / 10))))"
    by blast
  from n0 have n: "length (getPages written) = 3" by simp
  note page = c0 [rule_format]
  from page [of 0] have "\<exists>opts. page_contents (getPages written ! 0) =
      [Existing ''body'', DrawText ''BeaverDoc - UID: UID-X | Token: DOC-Y | Page 1/3'' opts]"
    by (auto simp: sample_page_def numberToString.simps digit_char_def)
  moreover from page [of 1] have "\<exists>opts. page_contents (getPages written ! 1) =
      [Existing ''body'', DrawText ''BeaverDoc - UID: UID-X | Token: DOC-Y | Page 2/3'' opts]"
    by (auto simp: sample_page_def numberToString.simps digit_char_def)
  moreover from page [of 2] have "\<exists>opts. page_contents (getPages written ! 2) =
      [Existing ''body'', DrawText ''BeaverDoc - UID: UID-X | Token: DOC-Y | Page 3/3'' opts]"
    by (auto simp: sample_page_def numberToString.simps digit_char_def)
  ultimately show ?thesis using l r b n by blast
qed

text \<open>
  C5. Within one successful call, the footers of any two pages differ in the page number
  alone: the text before it and the text after it (the total and, when a signature is
  given, the signature and the one timestamp of the call) are the same on both pages, and
  so are the drawing options apart from the horizontal position.
\<close>

theorem footer_same_across_pages:
  assumes "load lib pdfBuffer = Inr pdfDoc"
    and "addUidAndTokenToPdf lib clock pdfBuffer uid token signatureInfo = (out, Inr bytes)"
    and "i < length (getPages pdfDoc)" and "j < length (getPages pdfDoc)"
  shows "let before = ''BeaverDoc - UID: '' @ uid @ '' | Token: '' @ token @ '' | Page '';
             after = ''/'' @ numberToString (length (getPages pdfDoc)) @
               (case signatureInfo of
                  None \<Rightarrow> []
                | Some s \<Rightarrow>
                    if s = [] then []
                    else '' | '' @ s @ '' | Horodat'' @ [CHR 0xC3, CHR 0xA9] @ '' le ''
                         @ timestampOf clock)
     in \<exists>stamped opts_i opts_j.
      save lib stamped = Inr bytes \<and>
      page_contents (getPages stamped ! i) = page_contents (getPages pdfDoc ! i) @
        [DrawText (before @ numberToString (i + 1) @ after) opts_i] \<and>
      page_contents (getPages stamped ! j) = page_contents (getPages pdfDoc ! j) @
        [DrawText (before @ numberToString (j + 1) @ after) opts_j] \<and>
      opts_i\<lparr>opt_x := 0\<rparr> = opts_j\<lparr>opt_x := 0\<rparr>"
proof -
  from assms(2) obtain pdfDoc' stamped where
    l: "load lib pdfBuffer = Inr pdfDoc'"
    and s: "stampDocument lib clock pdfDoc' uid token signatureInfo = Inr stamped"
    and b: "save lib stamped = Inr bytes"
    by (rule addUidAndTokenToPdf_Inr_D)
  from l assms(1) have [simp]: "pdfDoc' = pdfDoc" by simp
  have ft: "footerText uid token signatureInfo (timestampOf clock) k (length (getPages pdfDoc)) =
      (''BeaverDoc - UID: '' @ uid @ '' | Token: '' @ token @ '' | Page '')
      @ numberToString (k + 1) @
      (''/'' @ numberToString (length (getPages pdfDoc)) @
               (case signatureInfo of
                  None \<Rightarrow> []
                | Some s \<Rightarrow>
                    if s = [] then []
                    else '' | '' @ s @ '' | Horodat'' @ [CHR 0xC3, CHR 0xA9] @ '' le ''
                         @ timestampOf clock))" for k
    by (simp add: footerText_def split: option.splits)
  from stampDocument_page [OF s [simplified] assms(3)]
    stampDocument_page [OF s [simplified] assms(4)] b
  show ?thesis
    unfolding ft Let_def by auto
qed

theorem footer_same_across_pages_witness:
  "load sample_lib [200, 100, 50]
     = Inr (PDFDocument [sample_page 200, sample_page 100, sample_page 50]) \<and>
   addUidAndTokenToPdf sample_lib sample_clock [200, 100, 50] ''UID-X'' ''DOC-Y''
     (Some ''Signed by Alice'') = ([], Inr [2, 2, 2]) \<and>
   (\<exists>stamped opts_i opts_j.
      save sample_lib stamped = Inr [2, 2, 2] \<and>
      page_contents (getPages stamped ! 0) =
        [Existing ''body'',
         DrawText (''BeaverDoc - UID: UID-X | Token: DOC-Y | Page 1/3 | Signed by Alice | Horodat''
                   @ [CHR 0xC3, CHR 0xA9] @ '' le 03/11/2026 10:15:00'') opts_i] \<and>
      page_contents (getPages stamped ! 2) =
        [Existing ''body'',
         DrawText (''BeaverDoc - UID: UID-X | Token: DOC-Y | Page 3/3 | Signed by Alice | Horodat''
                   @ [CHR 0xC3, CHR 0xA9] @ '' le 03/11/2026 10:15:00'') opts_j] \<and>
      opts_i\<lparr>opt_x := 0\<rparr> = opts_j\<lparr>opt_x := 0\<rparr>)"
proof -
  have l: "load sample_lib [200, 100, 50]
     = Inr (PDFDocument [sample_page 200, sample_page 100, sample_page 50])"
    by (simp add: sample_lib_def)
  have r: "addUidAndTokenToPdf sample_lib sample_clock [200, 100, 50] ''UID-X''
     ''DOC-Y'' (Some ''Signed by Alice'') = ([], Inr [2, 2, 2])"
    by (simp add: sample_eval)
  from footer_same_across_pages [OF l r, of 0 2] l r show ?thesis
    by (simp add: numberToString.simps digit_char_def sample_page_def Let_def
        timestampOf_def sample_clock_def)
qed

section \<open>Failure\<close>

text \<open>
  C6. Every call, whatever the bytes, settles in one of two ways. Either every step
  succeeded: the result is the serialisation of the document in which every page has its
  footer, and nothing is logged. Or a step threw: the call logs the cause and rejects
  with the one fixed error, which does not depend on the cause, and returns no bytes. A
  file that does not parse, a font that cannot be embedded, a page that cannot be
  measured or drawn (even after earlier pages were drawn) and a document that cannot be
  serialised all end in the second way.
\<close>

theorem stamper_errors_collapse:
  "((\<exists>pdfDoc stamped bytes.
       load lib pdfBuffer = Inr pdfDoc \<and>
       stampDocument lib clock pdfDoc uid token signatureInfo = Inr stamped \<and>
       save lib stamped = Inr bytes \<and>
       length (getPages stamped) = length (getPages pdfDoc) \<and>
       (\<forall>j < length (getPages pdfDoc). \<exists>opts.
          page_contents (getPages stamped ! j) = page_contents (getPages pdfDoc ! j) @
            [DrawText (footerText uid token signatureInfo (timestampOf clock) j (length (getPages pdfDoc)))
               opts]) \<and>
       addUidAndTokenToPdf lib clock pdfBuffer uid token signatureInfo = ([], Inr bytes))
    \<or> (\<exists>cause.
       tryStamp lib clock pdfBuffer uid token signatureInfo = Inl cause \<and>
       addUidAndTokenToPdf lib clock pdfBuffer uid token signatureInfo =
         ([(''Erreur lors de la modification du PDF:'', cause)], Inl (Error genericMessage)))) \<and>
   (\<forall>e. load lib pdfBuffer = Inl e \<longrightarrow>
      addUidAndTokenToPdf lib clock pdfBuffer uid token signatureInfo =
        ([(''Erreur lors de la modification du PDF:'', e)], Inl (Error genericMessage))) \<and>
   (\<forall>pdfDoc e. load lib pdfBuffer = Inr pdfDoc \<and> embedFont lib pdfDoc Helvetica = Inl e \<longrightarrow>
      addUidAndTokenToPdf lib clock pdfBuffer uid token signatureInfo =
        ([(''Erreur lors de la modification du PDF:'', e)], Inl (Error genericMessage))) \<and>
   (\<forall>pdfDoc font j e.
      load lib pdfBuffer = Inr pdfDoc \<and> embedFont lib pdfDoc Helvetica = Inr font \<and>
      j < length (getPages pdfDoc) \<and>
      stampPage lib font uid token signatureInfo (timestampOf clock) (length (getPages pdfDoc)) j
        (getPages pdfDoc ! j) = Inl e \<longrightarrow>
      (\<exists>cause. addUidAndTokenToPdf lib clock pdfBuffer uid token signatureInfo =
        ([(''Erreur lors de la modification du PDF:'', cause)], Inl (Error genericMessage)))) \<and>
   (\<forall>pdfDoc stamped e.
      load lib pdfBuffer = Inr pdfDoc \<and>
      stampDocument lib clock pdfDoc uid token signatureInfo = Inr stamped \<and>
      save lib stamped = Inl e \<longrightarrow>
      addUidAndTokenToPdf lib clock pdfBuffer uid token signatureInfo =
        ([(''Erreur lors de la modification du PDF:'', e)], Inl (Error genericMessage)))"
proof (intro conjI allI impI)
  show "(\<exists>pdfDoc stamped bytes.
       load lib pdfBuffer = Inr pdfDoc \<and>
       stampDocument lib clock pdfDoc uid token signatureInfo = Inr stamped \<and>
       save lib stamped = Inr bytes \<and>
       length (getPages stamped) = length (getPages pdfDoc) \<and>
       (\<forall>j < length (getPages pdfDoc). \<exists>opts.
          page_contents (getPages stamped ! j) = page_contents (getPages pdfDoc ! j) @
            [DrawText (footerText uid token signatureInfo (timestampOf clock) j (length (getPages pdfDoc)))
               opts]) \<and>
       addUidAndTokenToPdf lib clock pdfBuffer uid token signatureInfo = ([], Inr bytes))
    \<or> (\<exists>cause.
       tryStamp lib clock pdfBuffer uid token signatureInfo = Inl cause \<and>
       addUidAndTokenToPdf lib clock pdfBuffer uid token signatureInfo =
         ([(''Erreur lors de la modification du PDF:'', cause)], Inl (Error genericMessage)))"
  proof (cases "tryStamp lib clock pdfBuffer uid token signatureInfo")
    case (Inl cause)
    then show ?thesis by (simp add: addUidAndTokenToPdf_def)
  next
    case (Inr bytes)
    then have r: "addUidAndTokenToPdf lib clock pdfBuffer uid token signatureInfo
        = ([], Inr bytes)"
      by (simp add: addUidAndTokenToPdf_def)
    then obtain pdfDoc stamped where
      l: "load lib pdfBuffer = Inr pdfDoc"
      and s: "stampDocument lib clock pdfDoc uid token signatureInfo = Inr stamped"
      and b: "save lib stamped = Inr bytes"
      by (rule addUidAndTokenToPdf_Inr_D)
    from stampDocument_contents [OF s] stampDocument_length [OF s] l s b r
    show ?thesis by blast
  qed
next
  fix e assume "load lib pdfBuffer = Inl e"
  then show "addUidAndTokenToPdf lib clock pdfBuffer uid token signatureInfo =
        ([(''Erreur lors de la modification du PDF:'', e)], Inl (Error genericMessage))"
    by (simp add: addUidAndTokenToPdf_def tryStamp_def)
next
  fix pdfDoc e
  assume "load lib pdfBuffer = Inr pdfDoc \<and> embedFont lib pdfDoc Helvetica = Inl e"
  then show "addUidAndTokenToPdf lib clock pdfBuffer uid token signatureInfo =
        ([(''Erreur lors de la modification du PDF:'', e)], Inl (Error genericMessage))"
    by (simp add: addUidAndTokenToPdf_def tryStamp_def stampDocument_def)
next
  fix pdfDoc font j e
  assume a: "load lib pdfBuffer = Inr pdfDoc \<and> embedFont lib pdfDoc Helvetica = Inr font \<and>
      j < length (getPages pdfDoc) \<and>
      stampPage lib font uid token signatureInfo (timestampOf clock) (length (getPages pdfDoc)) j
        (getPages pdfDoc ! j) = Inl e"
  have "\<exists>cause. stampPages lib font uid token signatureInfo (timestampOf clock) 0 (getPages pdfDoc)
      = Inl cause"
  proof (cases "stampPages lib font uid token signatureInfo (timestampOf clock) 0 (getPages pdfDoc)")
    case (Inl cause)
    then show ?thesis by blast
  next
    case (Inr pages')
    from stampPages_nth [OF Inr, of j] a show ?thesis by simp
  qed
  with a show "\<exists>cause. addUidAndTokenToPdf lib clock pdfBuffer uid token signatureInfo =
        ([(''Erreur lors de la modification du PDF:'', cause)], Inl (Error genericMessage))"
    by (auto simp: addUidAndTokenToPdf_def tryStamp_def stampDocument_def)
next
  fix pdfDoc stamped e
  assume "load lib pdfBuffer = Inr pdfDoc \<and>
      stampDocument lib clock pdfDoc uid token signatureInfo = Inr stamped \<and>
      save lib stamped = Inl e"
  then show "addUidAndTokenToPdf lib clock pdfBuffer uid token signatureInfo =
        ([(''Erreur lors de la modification du PDF:'', e)], Inl (Error genericMessage))"
    by (simp add: addUidAndTokenToPdf_def tryStamp_def)
qed

theorem stamper_errors_collapse_witness:
  "load sample_lib [] = Inl (Error ''No PDF header found'') \<and>
   addUidAndTokenToPdf sample_lib sample_clock [] ''UID-X'' ''DOC-Y'' None =
     ([(''Erreur lors de la modification du PDF:'', Error ''No PDF header found'')],
      Inl (Error ''Impossible de modifier le PDF pour ajouter l'UID et le token'')) \<and>
   load faulty_lib [200, 50] = Inr (PDFDocument [sample_page 200, sample_page 50]) \<and>
   embedFont faulty_lib (PDFDocument [sample_page 200, sample_page 50]) Helvetica
     = Inr (PDFFont Helvetica) \<and>
   stampPage faulty_lib (PDFFont Helvetica) ''UID-X'' ''DOC-Y'' None (timestampOf sample_clock) 2 0
     (sample_page 200) =
     Inr \<lparr>page_width = 200, page_height = 842,
          page_contents =
            [Existing ''body'',
             DrawText ''BeaverDoc - UID: UID-X | Token: DOC-Y | Page 1/2''
               \<lparr>opt_x = 28, opt_y = 10, opt_size = 6, opt_font = PDFFont Helvetica,
                opt_color = RGB (literal_double (7 / 10)) (literal_double (7 / 10))
                               (literal_double (7 / 10)),
               opt_opacity = 1 / 2\<rparr>]\<rparr> \<and>
   stampPage faulty_lib (PDFFont Helvetica) ''UID-X'' ''DOC-Y'' None (timestampOf sample_clock) 2 1
     (sample_page 50) = Inl (Error ''text does not fit'') \<and>
   (\<exists>cause.
      addUidAndTokenToPdf faulty_lib sample_clock [200, 50] ''UID-X'' ''DOC-Y'' None =
        ([(''Erreur lors de la modification du PDF:'', cause)],
         Inl (Error ''Impossible de modifier le PDF pour ajouter l'UID et le token'')))"
proof -
  note inst = stamper_errors_collapse [of sample_lib "[]" sample_clock
      "''UID-X''" "''DOC-Y''" None]
  note inst' = stamper_errors_collapse [of faulty_lib "[200, 50]" sample_clock
      "''UID-X''" "''DOC-Y''" None]
  have l: "load sample_lib [] = Inl (Error ''No PDF header found'')"
    by (simp add: sample_lib_def)
  have l': "load faulty_lib [200, 50] = Inr (PDFDocument [sample_page 200, sample_page 50])"
    by (simp add: faulty_lib_def sample_lib_def)
  have f': "embedFont faulty_lib (PDFDocument [sample_page 200, sample_page 50]) Helvetica
     = Inr (PDFFont Helvetica)"
    by (simp add: faulty_lib_def sample_lib_def)
  have p0: "stampPage faulty_lib (PDFFont Helvetica) ''UID-X'' ''DOC-Y'' None (timestampOf sample_clock) 2 0 (sample_page 200) =
     Inr \<lparr>page_width = 200, page_height = 842,
          page_contents =
            [Existing ''body'',
             DrawText ''BeaverDoc - UID: UID-X | Token: DOC-Y | Page 1/2''
               \<lparr>opt_x = 28, opt_y = 10, opt_size = 6, opt_font = PDFFont Helvetica,
                opt_color = RGB (literal_double (7 / 10)) (literal_double (7 / 10))
                               (literal_double (7 / 10)),
               opt_opacity = 1 / 2\<rparr>]\<rparr>"
    by (simp add: faulty_lib_def sample_eval)
  have p1: "stampPage faulty_lib (PDFFont Helvetica) ''UID-X'' ''DOC-Y'' None (timestampOf sample_clock) 2 1 (sample_page 50) = Inl (Error ''text does not fit'')"
    by (simp add: faulty_lib_def sample_eval)
  from inst l have a: "addUidAndTokenToPdf sample_lib sample_clock [] ''UID-X''
      ''DOC-Y'' None =
     ([(''Erreur lors de la modification du PDF:'', Error ''No PDF header found'')],
      Inl (Error ''Impossible de modifier le PDF pour ajouter l'UID et le token''))"
    by (simp add: genericMessage_def)
  from inst' have "\<forall>pdfDoc font j e.
      load faulty_lib [200, 50] = Inr pdfDoc \<and> embedFont faulty_lib pdfDoc Helvetica = Inr font \<and>
      j < length (getPages pdfDoc) \<and>
      stampPage faulty_lib font ''UID-X'' ''DOC-Y'' None (timestampOf sample_clock)
        (length (getPages pdfDoc)) j (getPages pdfDoc ! j) = Inl e \<longrightarrow>
      (\<exists>cause. addUidAndTokenToPdf faulty_lib sample_clock [200, 50] ''UID-X''
         ''DOC-Y'' None =
        ([(''Erreur lors de la modification du PDF:'', cause)], Inl (Error genericMessage)))"
    by blast
  from this [rule_format, of "PDFDocument [sample_page 200, sample_page 50]" "PDFFont Helvetica"
      1 "Error ''text does not fit''"] l' f' p1
  have b: "\<exists>cause.
      addUidAndTokenToPdf faulty_lib sample_clock [200, 50] ''UID-X'' ''DOC-Y'' None =
        ([(''Erreur lors de la modification du PDF:'', cause)],
         Inl (Error ''Impossible de modifier le PDF pour ajouter l'UID et le token''))"
    by (simp add: genericMessage_def numeral_2_eq_2)
  from l a l' f' p0 p1 b show ?thesis by blast
qed

section \<open>Stamping twice\<close>

text \<open>
  C7. Stamping is not idempotent. When a document that was stamped is stamped again, no
  footer is replaced: every page then ends with the footer of the first application
  followed by the footer of the second, after its original content, and a document with
  a page differs from the one stamped once. When the library reads back the bytes it
  wrote, the same holds of two calls of the routine, the second on the output of the
  first.
\<close>

theorem stamping_twice_accumulates:
  assumes "stampDocument lib clock1 doc0 uid1 token1 signatureInfo1 = Inr doc1"
    and "stampDocument lib clock2 doc1 uid2 token2 signatureInfo2 = Inr doc2"
  shows "length (getPages doc2) = length (getPages doc0) \<and>
    (\<forall>j < length (getPages doc0). \<exists>opts1 opts2.
       page_contents (getPages doc2 ! j) = page_contents (getPages doc0 ! j) @
         [DrawText (footerText uid1 token1 signatureInfo1 (timestampOf clock1) j (length (getPages doc0)))
            opts1,
          DrawText (footerText uid2 token2 signatureInfo2 (timestampOf clock2) j (length (getPages doc0)))
            opts2]) \<and>
    (getPages doc0 \<noteq> [] \<longrightarrow> doc2 \<noteq> doc1) \<and>
    (\<forall>buffer0 buffer1 buffer2.
       load lib buffer0 = Inr doc0 \<and> save lib doc1 = Inr buffer1 \<and>
       load lib buffer1 = Inr doc1 \<and> save lib doc2 = Inr buffer2 \<longrightarrow>
       addUidAndTokenToPdf lib clock1 buffer0 uid1 token1 signatureInfo1
         = ([], Inr buffer1) \<and>
       addUidAndTokenToPdf lib clock2 buffer1 uid2 token2 signatureInfo2
         = ([], Inr buffer2))"
proof -
  have n1: "length (getPages doc1) = length (getPages doc0)"
    by (rule stampDocument_length [OF assms(1)])
  have n2: "length (getPages doc2) = length (getPages doc0)"
    using stampDocument_length [OF assms(2)] n1 by simp
  have two: "\<exists>opts1 opts2.
       page_contents (getPages doc2 ! j) = page_contents (getPages doc0 ! j) @
         [DrawText (footerText uid1 token1 signatureInfo1 (timestampOf clock1) j (length (getPages doc0)))
            opts1,
          DrawText (footerText uid2 token2 signatureInfo2 (timestampOf clock2) j (length (getPages doc0)))
            opts2]"
    if j: "j < length (getPages doc0)" for j
  proof -
    from stampDocument_contents [OF assms(1) j] obtain opts1 where
      c1: "page_contents (getPages doc1 ! j) = page_contents (getPages doc0 ! j) @
        [DrawText (footerText uid1 token1 signatureInfo1 (timestampOf clock1) j (length (getPages doc0)))
           opts1]"
      by blast
    from j n1 have "j < length (getPages doc1)" by simp
    from stampDocument_contents [OF assms(2) this] obtain opts2 where
      "page_contents (getPages doc2 ! j) = page_contents (getPages doc1 ! j) @
        [DrawText (footerText uid2 token2 signatureInfo2 (timestampOf clock2) j (length (getPages doc1)))
           opts2]"
      by blast
    with c1 n1 show ?thesis by simp
  qed
  have differ: "doc2 \<noteq> doc1" if "getPages doc0 \<noteq> []"
  proof
    assume eq: "doc2 = doc1"
    from that have j: "0 < length (getPages doc0)" by simp
    from stampDocument_contents [OF assms(1) j] two [OF j]
    have "length (page_contents (getPages doc1 ! 0)) = length (page_contents (getPages doc0 ! 0)) + 1"
      and "length (page_contents (getPages doc2 ! 0)) = length (page_contents (getPages doc0 ! 0)) + 2"
      by auto
    with eq show False by simp
  qed
  have calls: "addUidAndTokenToPdf lib clock1 buffer0 uid1 token1 signatureInfo1
         = ([], Inr buffer1) \<and>
       addUidAndTokenToPdf lib clock2 buffer1 uid2 token2 signatureInfo2
         = ([], Inr buffer2)"
    if "load lib buffer0 = Inr doc0 \<and> save lib doc1 = Inr buffer1 \<and>
       load lib buffer1 = Inr doc1 \<and> save lib doc2 = Inr buffer2"
    for buffer0 buffer1 buffer2
    using that assms by (simp add: addUidAndTokenToPdf_Inr_I)
  from n2 two differ calls show ?thesis by blast
qed

theorem stamping_twice_accumulates_witness:
  "stampDocument sample_lib sample_clock (PDFDocument [sample_page 200])
     ''UID-X'' ''DOC-Y'' None = Inr sample_stamped \<and>
   (\<exists>doc2.
      stampDocument sample_lib sample_clock sample_stamped
        ''UID-Z'' ''DOC-W'' None = Inr doc2 \<and>
      length (getPages doc2) = 1 \<and>
      (\<exists>opts1 opts2. page_contents (getPages doc2 ! 0) =
         [Existing ''body'',
          DrawText ''BeaverDoc - UID: UID-X | Token: DOC-Y | Page 1/1'' opts1,
          DrawText ''BeaverDoc - UID: UID-Z | Token: DOC-W | Page 1/1'' opts2]) \<and>
      doc2 \<noteq> sample_stamped) \<and>
   load sample_lib [200] = Inr (PDFDocument [sample_page 200]) \<and>
   save sample_lib sample_stamped = Inr [0x53] \<and>
   load sample_lib [0x53] = Inr sample_stamped \<and>
   addUidAndTokenToPdf sample_lib sample_clock [200] ''UID-X'' ''DOC-Y'' None
     = ([], Inr [0x53]) \<and>
   addUidAndTokenToPdf sample_lib sample_clock [0x53] ''UID-Z'' ''DOC-W'' None
     = ([], Inr [3])"
proof -
  let ?doc2 = "PDFDocument
       [\<lparr>page_width = 200, page_height = 842,
         page_contents =
           [Existing ''body'',
            DrawText ''BeaverDoc - UID: UID-X | Token: DOC-Y | Page 1/1''
              \<lparr>opt_x = 28, opt_y = 10, opt_size = 6, opt_font = PDFFont Helvetica,
               opt_color = RGB (literal_double (7 / 10)) (literal_double (7 / 10))
                               (literal_double (7 / 10)),
               opt_opacity = 1 / 2\<rparr>,
            DrawText ''BeaverDoc - UID: UID-Z | Token: DOC-W | Page 1/1''
              \<lparr>opt_x = 28, opt_y = 10, opt_size = 6, opt_font = PDFFont Helvetica,
               opt_color = RGB (literal_double (7 / 10)) (literal_double (7 / 10))
                               (literal_double (7 / 10)),
               opt_opacity = 1 / 2\<rparr>]\<rparr>]"
  have s1: "stampDocument sample_lib sample_clock (PDFDocument [sample_page 200])
     ''UID-X'' ''DOC-Y'' None = Inr sample_stamped"
    by (simp add: sample_eval)
  have s2: "stampDocument sample_lib sample_clock sample_stamped
        ''UID-Z'' ''DOC-W'' None = Inr ?doc2"
    by (simp add: sample_eval)
  have l0: "load sample_lib [200] = Inr (PDFDocument [sample_page 200])"
    by (simp add: sample_lib_def)
  have b1: "save sample_lib sample_stamped = Inr [0x53]"
    by (simp add: save_def prepareForSave_def sample_lib_def sample_stamped_def)
  have l1: "load sample_lib [0x53] = Inr sample_stamped"
    by (simp add: sample_lib_def)
  have b2: "save sample_lib ?doc2 = Inr [3]"
    by (simp add: save_def prepareForSave_def sample_lib_def sample_stamped_def)
  note inst = stamping_twice_accumulates [OF s1 s2]
  from inst have n: "length (getPages ?doc2) = 1" by simp
  from inst have "\<forall>j < length (getPages (PDFDocument [sample_page 200])). \<exists>opts1 opts2.
       page_contents (getPages ?doc2 ! j) =
         page_contents (getPages (PDFDocument [sample_page 200]) ! j) @
         [DrawText (footerText ''UID-X'' ''DOC-Y'' None (timestampOf sample_clock) j
            (length (getPages (PDFDocument [sample_page 200])))) opts1,
          DrawText (footerText ''UID-Z'' ''DOC-W'' None (timestampOf sample_clock) j
            (length (getPages (PDFDocument [sample_page 200])))) opts2]"
    by blast
  then have c: "\<exists>opts1 opts2. page_contents (getPages ?doc2 ! 0) =
         [Existing ''body'',
          DrawText ''BeaverDoc - UID: UID-X | Token: DOC-Y | Page 1/1'' opts1,
          DrawText ''BeaverDoc - UID: UID-Z | Token: DOC-W | Page 1/1'' opts2]"
    by (simp add: footerText_def numberToString.simps digit_char_def sample_page_def)
  from inst have "getPages (PDFDocument [sample_page 200]) \<noteq> [] \<longrightarrow> ?doc2 \<noteq> sample_stamped"
    by blast
  then have d: "?doc2 \<noteq> sample_stamped" by simp
  from inst l0 b1 l1 b2 have
    "addUidAndTokenToPdf sample_lib sample_clock [200] ''UID-X'' ''DOC-Y'' None
       = ([], Inr [0x53]) \<and>
     addUidAndTokenToPdf sample_lib sample_clock [0x53] ''UID-Z'' ''DOC-W'' None
       = ([], Inr [3])"
    by blast
  with s1 s2 n c d l0 b1 l1 show ?thesis by blast
qed

section \<open>The identifiers\<close>

text \<open>
  C8. For readings of the shapes the platform produces (an ISO date-time, a time string,
  a UUID), generateUID returns "UID-<YYYYMMDD>-<HHMMSS>-USR0042-CPY7890-<16 hex>" and
  generateToken returns "DOC-<YYYYMMDD>-<HHMMSS>-<16 hex>", the sixteen characters being
  the first sixteen hexadecimal digits of the UUID. The stamper takes uid and token as
  they come. It does not validate them: whatever the two strings are, when the file
  parses, the font is embedded and the library measures, draws and serialises what it is
  given, the call succeeds, logs nothing, and the document it serialises has on every
  page, after the page's content, a footer that holds uid and token verbatim. It does not
  generate them: the call depends on them through the footer text alone.
\<close>

theorem identifier_generators:
  assumes "toISOString env = year @ ''-'' @ month @ ''-'' @ day @ ''T'' @ restDate"
    and "digits 4 year" and "digits 2 month" and "digits 2 day"
    and "toTimeString env = hours @ '':'' @ minutes @ '':'' @ seconds @ '' '' @ restTime"
    and "digits 2 hours" and "digits 2 minutes" and "digits 2 seconds"
    and "randomUUID env = h8 @ ''-'' @ h4a @ ''-'' @ h4b @ ''-'' @ h4c @ ''-'' @ h12"
    and "hexs 8 h8" and "hexs 4 h4a" and "hexs 4 h4b" and "hexs 4 h4c" and "hexs 12 h12"
  shows "generateUID env =
      ''UID-'' @ (year @ month @ day) @ ''-'' @ (hours @ minutes @ seconds)
        @ ''-USR0042-CPY7890-'' @ (h8 @ h4a @ h4b) \<and>
    generateToken env =
      ''DOC-'' @ (year @ month @ day) @ ''-'' @ (hours @ minutes @ seconds)
        @ ''-'' @ (h8 @ h4a @ h4b) \<and>
    digits 8 (year @ month @ day) \<and> digits 6 (hours @ minutes @ seconds) \<and>
    hexs 16 (h8 @ h4a @ h4b) \<and>
    (\<forall>k n. \<exists>rest. footerText uid token signatureInfo (timestampOf clock) k n =
       ''BeaverDoc - UID: '' @ uid @ '' | Token: '' @ token @ rest) \<and>
    (\<forall>uid' token'.
       (\<forall>k n. footerText uid token signatureInfo (timestampOf clock) k n =
              footerText uid' token' signatureInfo (timestampOf clock) k n) \<longrightarrow>
       addUidAndTokenToPdf lib clock pdfBuffer uid token signatureInfo =
       addUidAndTokenToPdf lib clock pdfBuffer uid' token' signatureInfo) \<and>
    (\<forall>pdfDoc font.
       load lib pdfBuffer = Inr pdfDoc \<and> embedFont lib pdfDoc Helvetica = Inr font \<and>
       (\<forall>t. \<exists>w. widthOfTextAtSize lib font t 6 = Inr w) \<and>
       (\<forall>p t opts. drawText_fault lib p t opts = None) \<and>
       (\<forall>d. \<exists>b. serialize lib d = Inr b) \<longrightarrow>
       (\<exists>bytes stamped.
          addUidAndTokenToPdf lib clock pdfBuffer uid token signatureInfo = ([], Inr bytes) \<and>
          save lib stamped = Inr bytes \<and>
          length (getPages stamped) = length (getPages pdfDoc) \<and>
          (\<forall>j < length (getPages pdfDoc). \<exists>rest opts.
             page_contents (getPages stamped ! j) = page_contents (getPages pdfDoc ! j) @
               [DrawText (''BeaverDoc - UID: '' @ uid @ '' | Token: '' @ token @ rest)
                  opts])))"
proof -
  note date = datePart [OF assms(1-4)]
  note time = timePart [OF assms(5-8)]
  note random = randomPart [OF assms(9-14)]
  have uid: "generateUID env =
      ''UID-'' @ (year @ month @ day) @ ''-'' @ (hours @ minutes @ seconds)
        @ ''-USR0042-CPY7890-'' @ (h8 @ h4a @ h4b)"
    by (simp add: generateUID_def date time random)
  have tok: "generateToken env =
      ''DOC-'' @ (year @ month @ day) @ ''-'' @ (hours @ minutes @ seconds)
        @ ''-'' @ (h8 @ h4a @ h4b)"
    by (simp add: generateToken_def date time random)
  have shapes: "digits 8 (year @ month @ day)" "digits 6 (hours @ minutes @ seconds)"
      "hexs 16 (h8 @ h4a @ h4b)"
    using assms by (simp_all add: digits_def hexs_def)
  have verbatim: "\<exists>rest. footerText uid token signatureInfo (timestampOf clock) k n =
       ''BeaverDoc - UID: '' @ uid @ '' | Token: '' @ token @ rest" for k n
    by (rule footerText_verbatim)
  have only: "addUidAndTokenToPdf lib clock pdfBuffer uid token signatureInfo =
       addUidAndTokenToPdf lib clock pdfBuffer uid' token' signatureInfo"
    if "\<forall>k n. footerText uid token signatureInfo (timestampOf clock) k n =
              footerText uid' token' signatureInfo (timestampOf clock) k n" for uid' token'
    using that by (intro addUidAndTokenToPdf_footer_cong) simp
  have accepts: "\<exists>bytes stamped.
          addUidAndTokenToPdf lib clock pdfBuffer uid token signatureInfo = ([], Inr bytes) \<and>
          save lib stamped = Inr bytes \<and>
          length (getPages stamped) = length (getPages pdfDoc) \<and>
          (\<forall>j < length (getPages pdfDoc). \<exists>rest opts.
             page_contents (getPages stamped ! j) = page_contents (getPages pdfDoc ! j) @
               [DrawText (''BeaverDoc - UID: '' @ uid @ '' | Token: '' @ token @ rest)
                  opts])"
    if "load lib pdfBuffer = Inr pdfDoc \<and> embedFont lib pdfDoc Helvetica = Inr font \<and>
       (\<forall>t. \<exists>w. widthOfTextAtSize lib font t 6 = Inr w) \<and>
       (\<forall>p t opts. drawText_fault lib p t opts = None) \<and>
       (\<forall>d. \<exists>b. serialize lib d = Inr b)" for pdfDoc font
    using that by (intro addUidAndTokenToPdf_renders [of lib pdfBuffer pdfDoc font]) auto
  from uid tok shapes verbatim only accepts show ?thesis by blast
qed

theorem identifier_generators_witness:
  "generateUID sample_env = ''UID-20261103-101500-USR0042-CPY7890-123e4567e89b42d3'' \<and>
   generateToken sample_env = ''DOC-20261103-101500-123e4567e89b42d3'' \<and>
   (\<exists>bytes stamped rest opts.
      addUidAndTokenToPdf sample_lib sample_clock [200]
        (generateUID sample_env) (generateToken sample_env) None = ([], Inr bytes) \<and>
      save sample_lib stamped = Inr bytes \<and>
      length (getPages stamped) = 1 \<and>
      page_contents (getPages stamped ! 0) =
        [Existing ''body'',
         DrawText (''BeaverDoc - UID: UID-20261103-101500-USR0042-CPY7890-123e4567e89b42d3''
                   @ '' | Token: DOC-20261103-101500-123e4567e89b42d3'' @ rest) opts])"
proof -
  note inst = identifier_generators [of sample_env "''2026''" "''11''" "''03''"
      "''10:15:00.000Z''" "''10''" "''15''" "''00''" "''GMT+0000 (Coordinated Universal Time)''"
      "''123e4567''" "''e89b''" "''42d3''" "''a456''" "''426614174000''"
      "generateUID sample_env" "generateToken sample_env" None sample_clock
      sample_lib "[200]"]
  have shape: "toISOString sample_env = ''2026'' @ ''-'' @ ''11'' @ ''-'' @ ''03'' @ ''T''
        @ ''10:15:00.000Z''"
    "digits 4 ''2026''" "digits 2 ''11''" "digits 2 ''03''"
    "toTimeString sample_env = ''10'' @ '':'' @ ''15'' @ '':'' @ ''00'' @ '' ''
        @ ''GMT+0000 (Coordinated Universal Time)''"
    "digits 2 ''10''" "digits 2 ''15''" "digits 2 ''00''"
    "randomUUID sample_env = ''123e4567'' @ ''-'' @ ''e89b'' @ ''-'' @ ''42d3'' @ ''-''
        @ ''a456'' @ ''-'' @ ''426614174000''"
    "hexs 8 ''123e4567''" "hexs 4 ''e89b''" "hexs 4 ''42d3''" "hexs 4 ''a456''"
    "hexs 12 ''426614174000''"
    by (simp_all add: sample_env_def digits_def hexs_def isDigit_def isHex_def)
  note all = inst [OF shape]
  from all have u: "generateUID sample_env
      = ''UID-20261103-101500-USR0042-CPY7890-123e4567e89b42d3''"
    by simp
  from all have t: "generateToken sample_env = ''DOC-20261103-101500-123e4567e89b42d3''"
    by simp
  have l: "load sample_lib [200] = Inr (PDFDocument [sample_page 200])"
    by (simp add: sample_lib_def)
  have f: "embedFont sample_lib (PDFDocument [sample_page 200]) Helvetica = Inr (PDFFont Helvetica)"
    by (simp add: sample_lib_def)
  have w: "\<forall>t. \<exists>w. widthOfTextAtSize sample_lib (PDFFont Helvetica) t 6 = Inr w"
    by (simp add: sample_lib_def)
  have d: "\<forall>p t opts. drawText_fault sample_lib p t opts = None"
    by (simp add: sample_lib_def)
  have b: "\<forall>d. \<exists>b. serialize sample_lib d = Inr b"
    by (simp add: sample_lib_def)
  from all have "\<forall>pdfDoc font.
       load sample_lib [200] = Inr pdfDoc \<and> embedFont sample_lib pdfDoc Helvetica = Inr font \<and>
       (\<forall>t. \<exists>w. widthOfTextAtSize sample_lib font t 6 = Inr w) \<and>
       (\<forall>p t opts. drawText_fault sample_lib p t opts = None) \<and>
       (\<forall>d. \<exists>b. serialize sample_lib d = Inr b) \<longrightarrow>
       (\<exists>bytes stamped.
          addUidAndTokenToPdf sample_lib sample_clock [200]
            (generateUID sample_env) (generateToken sample_env) None = ([], Inr bytes) \<and>
          save sample_lib stamped = Inr bytes \<and>
          length (getPages stamped) = length (getPages pdfDoc) \<and>
          (\<forall>j < length (getPages pdfDoc). \<exists>rest opts.
             page_contents (getPages stamped ! j) = page_contents (getPages pdfDoc ! j) @
               [DrawText (''BeaverDoc - UID: '' @ generateUID sample_env @ '' | Token: ''
                          @ generateToken sample_env @ rest)
                  opts]))"
    by blast
  from this [rule_format, of "PDFDocument [sample_page 200]" "PDFFont Helvetica"] l f w d b
  obtain bytes stamped where
    r: "addUidAndTokenToPdf sample_lib sample_clock [200]
            (generateUID sample_env) (generateToken sample_env) None = ([], Inr bytes)"
    and s: "save sample_lib stamped = Inr bytes"
    and n: "length (getPages stamped) = length (getPages (PDFDocument [sample_page 200]))"
    and c: "\<forall>j < length (getPages (PDFDocument [sample_page 200])). \<exists>rest opts.
             page_contents (getPages stamped ! j) =
               page_contents (getPages (PDFDocument [sample_page 200]) ! j) @
               [DrawText (''BeaverDoc - UID: '' @ generateUID sample_env @ '' | Token: ''
                          @ generateToken sample_env @ rest)
                  opts]"
    by blast
  from c [rule_format, of 0] obtain rest opts where
    "page_contents (getPages stamped ! 0) =
        [Existing ''body'',
         DrawText (''BeaverDoc - UID: UID-20261103-101500-USR0042-CPY7890-123e4567e89b42d3''
                   @ '' | Token: DOC-20261103-101500-123e4567e89b42d3'' @ rest) opts]"
    by (auto simp: u t sample_page_def)
  with r s n u t show ?thesis by auto
qed

section \<open>The upload route\<close>




end
